theory Spec2Isabelle
  imports Complex_Main "HOL-Library.AList"
begin

section \<open>Strings of the helper library\<close>

text \<open>
  A JavaScript string is a sequence of code units; \<open>length\<close>, \<open>substring\<close>,
  \<open>startsWith\<close>, \<open>split\<close> and \<open>join\<close> all work on code units. The embedding
  keeps a string as a list of characters, one per code unit, so \<open>length\<close> is the
  source's \<open>.length\<close> and \<open>take n\<close> is \<open>substring(0, n)\<close>.
\<close>

definition newline :: char where
  "newline = CHR 0x0A"

text \<open>\<open>s.startsWith(p)\<close>\<close>

definition startsWith :: "string \<Rightarrow> string \<Rightarrow> bool" where
  "startsWith s p = (take (length p) s = p)"

text \<open>\<open>s.split('\n')\<close>: never empty; the empty string gives one empty line.\<close>

fun splitLines :: "string \<Rightarrow> string list" where
  "splitLines [] = [[]]"
| "splitLines (c # cs) =
     (if c = newline then [] # splitLines cs
      else (case splitLines cs of [] \<Rightarrow> [[c]] | l # ls \<Rightarrow> (c # l) # ls))"

text \<open>\<open>ls.join('\n')\<close>: the empty array gives the empty string.\<close>

fun joinLines :: "string list \<Rightarrow> string" where
  "joinLines [] = []"
| "joinLines [l] = l"
| "joinLines (l # m # ls) = l @ newline # joinLines (m # ls)"

section \<open>Diff truncation (src/lib/helpers.ts)\<close>

subsection \<open>limitDiffForCommit\<close>

definition maxCharsCommit :: nat where
  "maxCharsCommit = 15000"

definition commitMarker :: string where
  "commitMarker = newline # newline # ''[diff truncated due to size]''"

text \<open>The two filters of \<open>limitDiffForCommit\<close>.\<close>

definition isCommitFileHeader :: "string \<Rightarrow> bool" where
  "isCommitFileHeader line =
     (startsWith line ''diff --git'' \<or> startsWith line ''+++'' \<or> startsWith line ''---'')"

definition isChangeLine :: "string \<Rightarrow> bool" where
  "isChangeLine line = (startsWith line ''+'' \<or> startsWith line ''-'')"

definition commitFileHeaders :: "string \<Rightarrow> string list" where
  "commitFileHeaders diff = filter isCommitFileHeader (splitLines diff)"

definition commitChangeLines :: "string \<Rightarrow> string list" where
  "commitChangeLines diff = filter isChangeLine (splitLines diff)"

text \<open>\<open>limitedLines = [...fileHeaders, ...changeLines.slice(0, 200)]\<close>\<close>

definition commitLimitedLines :: "string \<Rightarrow> string list" where
  "commitLimitedLines diff = commitFileHeaders diff @ take 200 (commitChangeLines diff)"

definition commitLimitedDiff :: "string \<Rightarrow> string" where
  "commitLimitedDiff diff = joinLines (commitLimitedLines diff)"

definition limitDiffForCommit :: "string \<Rightarrow> string" where
  "limitDiffForCommit diff =
     (if length diff \<le> maxCharsCommit then diff
      else if length (commitLimitedDiff diff) \<le> maxCharsCommit then commitLimitedDiff diff
      else take maxCharsCommit diff @ commitMarker)"

subsection \<open>limitDiffForPR\<close>

definition maxCharsPR :: nat where
  "maxCharsPR = 30000"

definition prMarker :: string where
  "prMarker = newline # newline # ''[Diff truncated - PR contains additional changes]''"

definition isPRFileHeader :: "string \<Rightarrow> bool" where
  "isPRFileHeader line =
     (startsWith line ''diff --git'' \<or> startsWith line ''+++'' \<or> startsWith line ''---''
      \<or> startsWith line ''index '')"

definition prFileHeaders :: "string \<Rightarrow> string list" where
  "prFileHeaders diff = filter isPRFileHeader (splitLines diff)"

text \<open>
  \<open>changesByFile\<close> is an object keyed by the \<open>diff --git\<close> line of a file. Its keys
  are never integer-like, so \<open>Object.entries\<close> lists them in insertion order, and an
  assignment to a key already present keeps the key's place: an association list
  with \<open>AList.update\<close>. The state of the first loop is the object and \<open>currentFile\<close>.
\<close>

type_synonym changesByFile = "(string \<times> string list) list"

definition collectLine :: "changesByFile \<times> string \<Rightarrow> string \<Rightarrow> changesByFile \<times> string" where
  "collectLine st line =
     (let changes = fst st; currentFile = snd st in
      if startsWith line ''diff --git'' then (AList.update line [] changes, line)
      else if currentFile \<noteq> [] \<and> isChangeLine line then
        (let changes1 = (case map_of changes currentFile of
                           None \<Rightarrow> AList.update currentFile [] changes
                         | Some _ \<Rightarrow> changes);
             cur = (case map_of changes1 currentFile of None \<Rightarrow> [] | Some ls \<Rightarrow> ls)
         in (if length cur < 20 then AList.update currentFile (cur @ [line]) changes1
             else changes1, currentFile))
      else (changes, currentFile))"

definition collectChanges :: "string list \<Rightarrow> changesByFile" where
  "collectChanges ls = fst (foldl collectLine ([], []) ls)"

text \<open>The section of one file: \<open>`\n${file}\n${changes.join('\n')}\n`\<close>\<close>

definition fileSection :: "string \<times> string list \<Rightarrow> string" where
  "fileSection e = newline # fst e @ newline # joinLines (snd e) @ [newline]"

text \<open>The second loop, with its \<open>break\<close>.\<close>

fun appendSections :: "changesByFile \<Rightarrow> string \<Rightarrow> nat \<Rightarrow> string" where
  "appendSections [] limitedDiff currentLength = limitedDiff"
| "appendSections (e # es) limitedDiff currentLength =
     (if currentLength + length (fileSection e) > maxCharsPR then limitedDiff
      else appendSections es (limitedDiff @ fileSection e)
             (currentLength + length (fileSection e)))"

definition prHeaderBlock :: "string \<Rightarrow> string" where
  "prHeaderBlock diff = joinLines (prFileHeaders diff) @ [newline, newline]"

definition prStructured :: "string \<Rightarrow> string" where
  "prStructured diff =
     appendSections (collectChanges (splitLines diff)) (prHeaderBlock diff)
       (length (prHeaderBlock diff))"

definition limitDiffForPR :: "string \<Rightarrow> string" where
  "limitDiffForPR diff =
     (if length diff \<le> maxCharsPR then diff
      else if length diff > 100000 then take maxCharsPR diff @ prMarker
      else prStructured diff @ prMarker)"

section \<open>Shell commands (src/lib/helpers.ts)\<close>

text \<open>
  \<open>s.trim()\<close> removes white space and line terminators at both ends. Of the code
  units below 256 these are tab, line feed, vertical tab, form feed, carriage return,
  space and the no-break space.
\<close>

definition isWhiteSpace :: "char \<Rightarrow> bool" where
  "isWhiteSpace c =
     (c \<in> {CHR 0x09, CHR 0x0A, CHR 0x0B, CHR 0x0C, CHR 0x0D, CHR 0x20, CHR 0xA0})"

definition trim :: "string \<Rightarrow> string" where
  "trim s = rev (dropWhile isWhiteSpace (rev (dropWhile isWhiteSpace s)))"

text \<open>
  The rejection of \<open>execa.command\<close>: an error object with a message, the flag
  \<open>timedOut\<close> and the exit code of the child, undefined when the child did not exit
  by itself. What the helpers throw is such an object, or \<open>new Error(message)\<close>.
\<close>

record execaError =
  message :: string
  timedOut :: bool
  exitCode :: "int option"

datatype error = Thrown execaError | Error string

text \<open>
  \<open>exec(command, options)\<close>, on the outcome of \<open>execa.command\<close>: the captured
  standard output, or, on failure, the error rethrown unless \<open>throwOnError\<close> is
  \<open>false\<close>, and then \<open>null\<close>.
\<close>

definition exec :: "execaError + string \<Rightarrow> bool option \<Rightarrow> error + string option" where
  "exec outcome throwOnError =
     (case outcome of
        Inr out \<Rightarrow> Inr (Some out)
      | Inl e \<Rightarrow> if throwOnError \<noteq> Some False then Inl (Thrown e) else Inr None)"

text \<open>\<open>execStream(command, options)\<close>: a success flag instead of the output.\<close>

definition execStream :: "execaError + string \<Rightarrow> bool option \<Rightarrow> error + bool" where
  "execStream outcome throwOnError =
     (case outcome of
        Inr _ \<Rightarrow> Inr True
      | Inl e \<Rightarrow> if throwOnError \<noteq> Some False then Inl (Thrown e) else Inr False)"

text \<open>Truthiness of a \<open>string | null\<close>: \<open>null\<close> and the empty string are falsy.\<close>

definition truthyString :: "string option \<Rightarrow> bool" where
  "truthyString v = (case v of None \<Rightarrow> False | Some s \<Rightarrow> s \<noteq> [])"

section \<open>Authentication resolution (getAnthropicApiKey)\<close>

text \<open>
  The values \<open>JSON.parse\<close> yields, and \<open>undefined\<close>. A number stands for the
  rational it denotes: the resolver only asks whether it is zero.
\<close>

datatype jsval =
    JUndefined
  | JNull
  | JBool bool
  | JNumber rat
  | JString string
  | JArray "jsval list"
  | JObject "(string \<times> jsval) list"

fun truthy :: "jsval \<Rightarrow> bool" where
  "truthy JUndefined = False"
| "truthy JNull = False"
| "truthy (JBool b) = b"
| "truthy (JNumber r) = (r \<noteq> 0)"
| "truthy (JString s) = (s \<noteq> [])"
| "truthy (JArray _) = True"
| "truthy (JObject _) = True"

text \<open>
  \<open>config.anthropicApiKey\<close>: a TypeError on \<open>null\<close> (here \<open>None\<close>), the field of an
  object, and \<open>undefined\<close> where there is no such field, as on every array, string,
  number and boolean.
\<close>

fun anthropicApiKeyOf :: "jsval \<Rightarrow> jsval option" where
  "anthropicApiKeyOf JNull = None"
| "anthropicApiKeyOf JUndefined = None"
| "anthropicApiKeyOf (JObject props) =
     (case map_of props ''anthropicApiKey'' of None \<Rightarrow> Some JUndefined | Some v \<Rightarrow> Some v)"
| "anthropicApiKeyOf _ = Some JUndefined"

datatype authMethod = EnvMethod | ClaudeCliMethod | ConfigMethod | PromptMethod

text \<open>
  \<open>AuthResult\<close> (src/lib/types.ts): \<open>{ method, key }\<close>. The key is declared
  \<open>string | null\<close>; the key read from the configuration file is whatever value
  \<open>JSON.parse\<close> gave, so the field holds a \<open>jsval\<close>.
\<close>

record AuthResult =
  methodOf :: authMethod
  keyOf :: jsval

text \<open>
  What resolution reads from its surroundings: the environment variable
  \<open>ANTHROPIC_API_KEY\<close> (undefined or a string), the outcome of running
  \<open>claude --version\<close>, the configuration path and its directory
  (\<open>path.join(os.homedir(), '.gh-claude-tools', 'config.json')\<close> and its
  \<open>path.dirname\<close>), the outcome of \<open>JSON.parse(await fs.readFile(configPath, 'utf8'))\<close>
  (\<open>None\<close> when either throws), the line the terminal hands to the callback of
  \<open>rl.question\<close>, and whether \<open>fs.mkdir\<close>, \<open>fs.writeFile\<close> and \<open>fs.chmod\<close>
  succeed. A run in which the terminal never delivers a line does not return; the
  embedding is of the runs in which it does.
\<close>

record authWorld =
  envApiKey :: "string option"
  claudeVersion :: "execaError + string"
  configPath :: string
  configDir :: string
  configRead :: "jsval option"
  answer :: string
  mkdirOk :: bool
  writeFileOk :: bool
  chmodOk :: bool

datatype notice = ApiKeyRequired | GetYourApiKey | ApiKeySaved | CouldNotSaveApiKey

text \<open>
  What resolution does to its surroundings, in order. Of the console output only the
  messages of step 4 are kept.
\<close>

datatype authEvent =
    EnvLookup
  | ExecProbe string
  | ReadFile string
  | Question string
  | Mkdir string
  | WriteFile string jsval
  | Chmod string nat
  | ConsoleLog notice
  | ConsoleWarn notice

text \<open>
  \<open>getAnthropicApiKey\<close> is one function of four numbered steps, each reached when
  the one before has not returned. The steps are written from the last to the first:
  saving the key and step 4 (the prompt), step 3 (the stored configuration), step 2
  (the probe of the AI client) and step 1 (the environment variable).

  The \<open>try\<close> block of step 4: the first of \<open>mkdir\<close>, \<open>writeFile\<close> and \<open>chmod\<close> to
  fail ends it in the warning of the \<open>catch\<close>.
\<close>

definition saveApiKey :: "authWorld \<Rightarrow> string \<Rightarrow> authEvent list" where
  "saveApiKey w apiKey =
     Mkdir (configDir w) #
     (if \<not> mkdirOk w then [ConsoleWarn CouldNotSaveApiKey]
      else WriteFile (configPath w) (JObject [(''anthropicApiKey'', JString apiKey)]) #
        (if \<not> writeFileOk w then [ConsoleWarn CouldNotSaveApiKey]
         else Chmod (configPath w) 0x180 #
           (if \<not> chmodOk w then [ConsoleWarn CouldNotSaveApiKey]
            else [ConsoleLog ApiKeySaved])))"

definition promptForApiKey :: "authWorld \<Rightarrow> authEvent list \<times> (error + AuthResult)" where
  "promptForApiKey w =
     (let asked = [ConsoleLog ApiKeyRequired, ConsoleLog GetYourApiKey,
                   Question ''Enter your Anthropic API key: ''];
          apiKey = trim (answer w)
      in if apiKey = [] then (asked, Inl (Error ''API key is required for AI features''))
         else (asked @ saveApiKey w apiKey,
               Inr \<lparr>methodOf = PromptMethod, keyOf = JString apiKey\<rparr>))"

definition readStoredConfig :: "authWorld \<Rightarrow> authEvent list \<times> (error + AuthResult)" where
  "readStoredConfig w =
     (let continue = (\<lambda>r. (ReadFile (configPath w) # fst r, snd r)) in
      case configRead w of
        None \<Rightarrow> continue (promptForApiKey w)
      | Some config \<Rightarrow>
          (case anthropicApiKeyOf config of
             None \<Rightarrow> continue (promptForApiKey w)
           | Some v \<Rightarrow>
               if truthy v
               then ([ReadFile (configPath w)], Inr \<lparr>methodOf = ConfigMethod, keyOf = v\<rparr>)
               else continue (promptForApiKey w)))"

definition probeClaudeCli :: "authWorld \<Rightarrow> authEvent list \<times> (error + AuthResult)" where
  "probeClaudeCli w =
     (case exec (claudeVersion w) (Some True) of
        Inr _ \<Rightarrow> ([ExecProbe ''claude --version''],
                  Inr \<lparr>methodOf = ClaudeCliMethod, keyOf = JNull\<rparr>)
      | Inl _ \<Rightarrow> (let r = readStoredConfig w
                 in (ExecProbe ''claude --version'' # fst r, snd r)))"

definition getAnthropicApiKey :: "authWorld \<Rightarrow> authEvent list \<times> (error + AuthResult)" where
  "getAnthropicApiKey w =
     (let later = (let r = probeClaudeCli w in (EnvLookup # fst r, snd r)) in
      case envApiKey w of
        None \<Rightarrow> later
      | Some k \<Rightarrow>
          if k \<noteq> [] then ([EnvLookup], Inr \<lparr>methodOf = EnvMethod, keyOf = JString k\<rparr>)
          else later)"

section \<open>The AI client (executeClaudeCommand, generatePRContent)\<close>

definition dquote :: char where
  "dquote = CHR 0x22"

definition backslash :: char where
  "backslash = CHR 0x5C"

text \<open>One call of \<open>execa.command\<close> on the AI client: the command line and its options.\<close>

record invocation =
  command :: string
  stdin :: string
  timeoutMs :: nat
  envExtra :: "(string \<times> jsval) list option"

text \<open>
  The surroundings of an AI call: those of authentication resolution, and the outcome
  of the client for each invocation.
\<close>

record aiWorld =
  auth :: authWorld
  claude :: "invocation \<Rightarrow> execaError + string"

text \<open>
  Everything the orchestrator does to its surroundings: the steps of authentication
  resolution, the shell commands it starts, and the temporary files it has written and
  removed.
\<close>

datatype event =
    Auth authEvent
  | Run string
  | WriteFileSync string string
  | UnlinkSync string

type_synonym 'a act = "event list \<times> (error + 'a)"

text \<open>Sequencing: the events of both steps; a throw ends the sequence.\<close>

definition andThen :: "'a act \<Rightarrow> ('a \<Rightarrow> 'b act) \<Rightarrow> 'b act" where
  "andThen m f =
     (case snd m of
        Inl e \<Rightarrow> (fst m, Inl e)
      | Inr x \<Rightarrow> (let r = f x in (fst m @ fst r, snd r)))"

definition claudeCommand :: "string \<Rightarrow> string" where
  "claudeCommand prompt = ''claude --print '' @ dquote # prompt @ [dquote]"

definition claudeTimeoutMs :: nat where
  "claudeTimeoutMs = 90000"

definition timedOutMessage :: string where
  "timedOutMessage =
     ''Claude CLI timed out after 90 seconds. The diff may be too large or Claude API is slow.''"

text \<open>\<open>error.exitCode\<close> as a condition: a number other than zero.\<close>

definition exitCodeTruthy :: "execaError \<Rightarrow> bool" where
  "exitCodeTruthy err = (case exitCode err of None \<Rightarrow> False | Some n \<Rightarrow> n \<noteq> 0)"

text \<open>
  The options of the two calls of \<open>execa.command\<close> in \<open>executeClaudeCommand\<close>: with
  an authenticated session the environment is left alone; otherwise the key, when it is
  truthy, is added to the environment of the process.
\<close>

definition sessionInvocation :: "string \<Rightarrow> string \<Rightarrow> invocation" where
  "sessionInvocation prompt input =
     \<lparr>command = claudeCommand prompt, stdin = input,
      timeoutMs = claudeTimeoutMs, envExtra = None\<rparr>"

definition keyInvocation :: "AuthResult \<Rightarrow> string \<Rightarrow> string \<Rightarrow> invocation" where
  "keyInvocation a prompt input =
     (let env = (if truthy (keyOf a) then [(''ANTHROPIC_API_KEY'', keyOf a)] else []) in
      \<lparr>command = claudeCommand prompt, stdin = input,
       timeoutMs = claudeTimeoutMs, envExtra = Some env\<rparr>)"

text \<open>
  The two branches of \<open>executeClaudeCommand\<close> after authentication, each with its own
  \<open>catch\<close>. The console output of both is left out.
\<close>

definition invokeClaude ::
  "(invocation \<Rightarrow> execaError + string) \<Rightarrow> AuthResult \<Rightarrow> string \<Rightarrow> string \<Rightarrow> string act" where
  "invokeClaude cl a prompt input =
     (if methodOf a = ClaudeCliMethod then
        (case cl (sessionInvocation prompt input) of
           Inr out \<Rightarrow> ([Run (claudeCommand prompt)], Inr (trim out))
         | Inl err \<Rightarrow>
             ([Run (claudeCommand prompt)],
              if timedOut err then Inl (Error timedOutMessage) else Inl (Thrown err)))
      else
        (case cl (keyInvocation a prompt input) of
           Inr out \<Rightarrow> ([Run (claudeCommand prompt)], Inr (trim out))
         | Inl err \<Rightarrow>
             ([Run (claudeCommand prompt)],
              if timedOut err then Inl (Error timedOutMessage)
              else if exitCodeTruthy err then Inl (Error ''Claude CLI not found'')
              else Inl (Thrown err))))"

definition executeClaudeCommand :: "aiWorld \<Rightarrow> string \<Rightarrow> string \<Rightarrow> string act" where
  "executeClaudeCommand w prompt input =
     andThen (map Auth (fst (getAnthropicApiKey (auth w))), snd (getAnthropicApiKey (auth w)))
       (\<lambda>a. invokeClaude (claude w) a prompt input)"

definition prPrompt :: string where
  "prPrompt = ''Based on these git changes, write a PR title (first line, under 72 chars) and description. Include: brief summary, key changes as bullets. Format for GitHub markdown. Output ONLY the title on first line, then a blank line, then the description.''"

text \<open>\<open>generatePRContent\<close> logs and rethrows what \<open>executeClaudeCommand\<close> throws.\<close>

definition generatePRContent :: "aiWorld \<Rightarrow> string \<Rightarrow> string act" where
  "generatePRContent w context' = executeClaudeCommand w prPrompt context'"

section \<open>The Push-and-PR orchestrator (src/bin/ghp.ts)\<close>

text \<open>
  The surroundings of the orchestrator: the outcome of each git and gh command it
  runs, the path of the commit script (\<open>require.resolve('./ghc')\<close>, taken to
  resolve), the temporary directory (\<open>tmpPath name\<close> is
  \<open>path.join(os.tmpdir(), name)\<close>), the clock (\<open>Date.now()\<close>), and whether
  \<open>fs.writeFileSync\<close> and \<open>fs.unlinkSync\<close> succeed. The console output of the
  orchestrator is left out; an event \<open>WriteFileSync\<close> or \<open>UnlinkSync\<close> stands for a
  call that succeeded.
\<close>

record ghpWorld =
  ai :: aiWorld
  gitBranch :: "execaError + string"
  gitDiffNames :: "execaError + string"
  gitDiffCachedNames :: "execaError + string"
  gitLsOthers :: "execaError + string"
  ghcPath :: string
  ghcRun :: "execaError + string"
  gitUpstream :: "execaError + string"
  gitPush :: "execaError + string"
  ghPrView :: "execaError + string"
  gitDiffStat :: "execaError + string"
  gitLog :: "execaError + string"
  gitDiff :: "execaError + string"
  tmpPath :: "string \<Rightarrow> string"
  now :: nat
  writeOk :: bool
  ghPrEdit :: "execaError + string"
  unlinkOk :: bool
  ghPrCreate :: "execaError + string"

text \<open>The decimal digits of a number, as a template literal prints \<open>Date.now()\<close>.\<close>

definition digitChar :: "nat \<Rightarrow> char" where
  "digitChar d = ''0123456789'' ! (d mod 10)"

function natToString :: "nat \<Rightarrow> string" where
  "natToString n =
     (if n < 10 then [digitChar n]
      else natToString (n div 10) @ [digitChar (n mod 10)])"
  by pat_completeness auto
termination
  by (relation "measure id") auto

declare natToString.simps [simp del]

definition getCurrentBranch :: "ghpWorld \<Rightarrow> string act" where
  "getCurrentBranch w =
     andThen ([Run ''git branch --show-current''], exec (gitBranch w) None)
       (\<lambda>branch. if \<not> truthyString branch
                  then ([], Inl (Error ''Failed to get current branch''))
                  else ([], Inr (case branch of None \<Rightarrow> [] | Some b \<Rightarrow> b)))"

definition hasUncommittedChanges :: "ghpWorld \<Rightarrow> bool act" where
  "hasUncommittedChanges w =
     andThen ([Run ''git diff --name-only''], exec (gitDiffNames w) (Some False))
       (\<lambda>unstaged.
     andThen ([Run ''git diff --cached --name-only''], exec (gitDiffCachedNames w) (Some False))
       (\<lambda>staged.
     andThen ([Run ''git ls-files --others --exclude-standard''],
              exec (gitLsOthers w) (Some False))
       (\<lambda>untracked.
          ([], Inr (truthyString unstaged \<or> truthyString staged \<or> truthyString untracked)))))"

definition ensureBranchPushed :: "ghpWorld \<Rightarrow> unit act" where
  "ensureBranchPushed w =
     andThen (getCurrentBranch w)
       (\<lambda>branch.
     andThen ([Run (''git rev-parse --abbrev-ref '' @ branch @ CHR ''@'' # ''{upstream}'')],
              exec (gitUpstream w) (Some False))
       (\<lambda>hasUpstream.
          if \<not> truthyString hasUpstream
          then andThen ([Run (''git push -u origin '' @ branch)], exec (gitPush w) None)
                 (\<lambda>_. ([], Inr ()))
          else andThen ([Run ''git push''], exec (gitPush w) None)
                 (\<lambda>_. ([], Inr ()))))"

text \<open>\<open>exec(...) || ''\<close>\<close>

definition orEmpty :: "string option \<Rightarrow> string" where
  "orEmpty r = (case r of None \<Rightarrow> [] | Some s \<Rightarrow> s)"

definition getPRContext :: "ghpWorld \<Rightarrow> string act" where
  "getPRContext w =
     andThen ([Run ''git diff origin/main...HEAD --stat''], exec (gitDiffStat w) None)
       (\<lambda>diffStat.
     andThen ([Run ''git log origin/main..HEAD --oneline''], exec (gitLog w) None)
       (\<lambda>commits.
     andThen ([Run ''git diff origin/main...HEAD''], exec (gitDiff w) None)
       (\<lambda>fullDiff.
          ([], Inr (''Diff summary:'' @ newline # orEmpty diffStat
                    @ newline # newline # ''Commits:'' @ newline # orEmpty commits
                    @ newline # newline # ''Sample changes:'' @ newline
                      # limitDiffForPR (orEmpty fullDiff))))))"

text \<open>\<open>getCurrentPR\<close>: the URL printed by \<open>gh pr view\<close>, or \<open>null\<close>; it never throws.\<close>

definition getCurrentPR :: "ghpWorld \<Rightarrow> string option act" where
  "getCurrentPR w =
     ([Run ''gh pr view --json url -q .url''],
      case exec (ghPrView w) None of
        Inl _ \<Rightarrow> Inr None
      | Inr prUrl \<Rightarrow> Inr (if truthyString prUrl then prUrl else None))"

text \<open>
  How \<open>main\<close> splits the generated content: \<open>lines[0]\<close> is the title (\<open>undefined\<close>,
  here \<open>None\<close>, on an empty array), \<open>lines.slice(2).join('\n')\<close> the description.
\<close>

definition prTitle :: "string \<Rightarrow> string option" where
  "prTitle prContent = (case splitLines prContent of [] \<Rightarrow> None | t # _ \<Rightarrow> Some t)"

definition prDescription :: "string \<Rightarrow> string" where
  "prDescription prContent = joinLines (drop 2 (splitLines prContent))"

text \<open>\<open>title.replace(/"/g, '\\"')\<close>\<close>

definition escapeTitle :: "string \<Rightarrow> string" where
  "escapeTitle title = concat (map (\<lambda>c. if c = dquote then [backslash, dquote] else [c]) title)"

text \<open>
  A run of \<open>main\<close> ends with an exit status: every \<open>catch\<close> of \<open>main\<close> ends in
  \<open>process.exit(1)\<close>, and a run that reaches the end of \<open>main\<close> exits with 0.
\<close>

definition orExit1 :: "'a act \<Rightarrow> ('a \<Rightarrow> event list \<times> nat) \<Rightarrow> event list \<times> nat" where
  "orExit1 m k =
     (case snd m of
        Inl _ \<Rightarrow> (fst m, 1)
      | Inr x \<Rightarrow> (let r = k x in (fst m @ fst r, snd r)))"

text \<open>The branch of \<open>main\<close> for an existing pull request.\<close>

definition updateExistingPR :: "ghpWorld \<Rightarrow> event list \<times> nat" where
  "updateExistingPR w =
     orExit1 (getPRContext w) (\<lambda>context'.
     orExit1 (generatePRContent (ai w) context') (\<lambda>prContent.
       (let description = prDescription prContent;
            tmpFile = tmpPath w (''pr-edit-'' @ natToString (now w) @ ''.md'')
        in if \<not> writeOk w then ([], 1)
           else
             orExit1 ([WriteFileSync tmpFile description,
                       Run (''gh pr edit --body-file '' @ dquote # tmpFile @ [dquote])],
                      exec (ghPrEdit w) None)
               (\<lambda>_. if \<not> unlinkOk w then ([], 1) else ([UnlinkSync tmpFile], 0)))))"

text \<open>The branch of \<open>main\<close> that creates a pull request.\<close>

definition createNewPR :: "ghpWorld \<Rightarrow> string \<Rightarrow> event list \<times> nat" where
  "createNewPR w branch =
     orExit1 (getPRContext w) (\<lambda>context'.
     orExit1 (generatePRContent (ai w) context') (\<lambda>prContent.
       (let body = prDescription prContent;
            tmpFile = tmpPath w (''pr-body-'' @ natToString (now w) @ ''.md'')
        in if \<not> writeOk w then ([], 1)
           else
             (case prTitle prContent of
                None \<Rightarrow> ([WriteFileSync tmpFile body], 1)
              | Some title \<Rightarrow>
                  orExit1 ([WriteFileSync tmpFile body,
                            Run (''gh pr create --title '' @ dquote # escapeTitle title
                                 @ dquote # '' --body-file '' @ dquote # tmpFile
                                 @ dquote # '' --base main --head '' @ dquote # branch
                                 @ [dquote])],
                           exec (ghPrCreate w) None)
                    (\<lambda>_. if \<not> unlinkOk w then ([], 1) else ([UnlinkSync tmpFile], 0))))))"

text \<open>\<open>main\<close> from the push on.\<close>

definition pushAndPR :: "ghpWorld \<Rightarrow> string \<Rightarrow> event list \<times> nat" where
  "pushAndPR w branch =
     orExit1 (ensureBranchPushed w) (\<lambda>_.
     orExit1 (getCurrentPR w) (\<lambda>existingPR.
       if truthyString existingPR then updateExistingPR w else createNewPR w branch))"

definition main :: "ghpWorld \<Rightarrow> event list \<times> nat" where
  "main w =
     orExit1 (getCurrentBranch w) (\<lambda>branch.
     orExit1 (hasUncommittedChanges w) (\<lambda>uncommitted.
       if uncommitted then
         orExit1 ([Run (''node '' @ dquote # ghcPath w @ [dquote])],
                  execStream (ghcRun w) (Some False))
           (\<lambda>ghcResult. if \<not> ghcResult then ([], 1) else pushAndPR w branch)
       else pushAndPR w branch))"

section \<open>Notions the properties are stated with\<close>

text \<open>The four sources of a key, and the sources a run of resolution has consulted.\<close>

datatype source = Environment | CliSession | SavedConfig | InteractivePrompt

fun sourceOf :: "authEvent \<Rightarrow> source option" where
  "sourceOf EnvLookup = Some Environment"
| "sourceOf (ExecProbe _) = Some CliSession"
| "sourceOf (ReadFile _) = Some SavedConfig"
| "sourceOf (Question _) = Some InteractivePrompt"
| "sourceOf _ = None"

definition sourcesConsulted :: "authEvent list \<Rightarrow> source list" where
  "sourcesConsulted evs = List.map_filter sourceOf evs"

text \<open>The key the saved configuration yields: the truthy value of its key field.\<close>

definition storedKey :: "authWorld \<Rightarrow> jsval option" where
  "storedKey w =
     (case configRead w of
        None \<Rightarrow> None
      | Some config \<Rightarrow>
          (case anthropicApiKeyOf config of
             None \<Rightarrow> None
           | Some v \<Rightarrow> if truthy v then Some v else None))"

text \<open>The invocation \<open>executeClaudeCommand\<close> makes for an authentication result.\<close>

definition invocationFor :: "AuthResult \<Rightarrow> string \<Rightarrow> string \<Rightarrow> invocation" where
  "invocationFor a prompt input =
     (if methodOf a = ClaudeCliMethod then sessionInvocation prompt input
      else keyInvocation a prompt input)"

text \<open>
  The commands of a run that change a pull request, and the temporary files a run
  leaves behind: those written and not removed afterwards.
\<close>

fun isPrWrite :: "event \<Rightarrow> bool" where
  "isPrWrite (Run c) = (take 10 c = ''gh pr edit'' \<or> take 12 c = ''gh pr create'')"
| "isPrWrite _ = False"

fun leftBehind :: "event list \<Rightarrow> string list \<Rightarrow> string list" where
  "leftBehind [] files = files"
| "leftBehind (WriteFileSync p _ # evs) files = leftBehind evs (p # removeAll p files)"
| "leftBehind (UnlinkSync p # evs) files = leftBehind evs (removeAll p files)"
| "leftBehind (_ # evs) files = leftBehind evs files"

text \<open>
  A quiet event changes no pull request and no temporary file: an authentication
  step, or a command other than \<open>gh pr edit\<close> and \<open>gh pr create\<close>.
\<close>

fun quietEvent :: "event \<Rightarrow> bool" where
  "quietEvent (Auth _) = True"
| "quietEvent (Run c) = (\<not> isPrWrite (Run c))"
| "quietEvent (WriteFileSync _ _) = False"
| "quietEvent (UnlinkSync _) = False"

definition quiet :: "event list \<Rightarrow> bool" where
  "quiet evs = list_all quietEvent evs"

text \<open>The temporary files of \<open>main\<close> and the commands that name them.\<close>

definition editTmpFile :: "ghpWorld \<Rightarrow> string" where
  "editTmpFile w = tmpPath w (''pr-edit-'' @ natToString (now w) @ ''.md'')"

definition editCommand :: "ghpWorld \<Rightarrow> string" where
  "editCommand w = ''gh pr edit --body-file '' @ dquote # editTmpFile w @ [dquote]"

definition bodyTmpFile :: "ghpWorld \<Rightarrow> string" where
  "bodyTmpFile w = tmpPath w (''pr-body-'' @ natToString (now w) @ ''.md'')"

definition createCommand :: "ghpWorld \<Rightarrow> string \<Rightarrow> string \<Rightarrow> string" where
  "createCommand w title branch =
     ''gh pr create --title '' @ dquote # escapeTitle title @ dquote # '' --body-file ''
       @ dquote # bodyTmpFile w @ dquote # '' --base main --head '' @ dquote # branch
       @ [dquote]"

section \<open>Example surroundings\<close>

text \<open>
  Concrete surroundings on which the properties below are evaluated: no key in the
  environment, no AI client installed, no configuration file, a key typed at the
  prompt, and a configuration file that cannot be written.
\<close>

definition exampleAuthWorld :: authWorld where
  "exampleAuthWorld =
     \<lparr>envApiKey = None,
      claudeVersion = Inl \<lparr>message = ''claude: command not found'', timedOut = False,
                           exitCode = Some 127\<rparr>,
      configPath = ''/home/u/.gh-claude-tools/config.json'',
      configDir = ''/home/u/.gh-claude-tools'',
      configRead = None,
      answer = '' sk-ant-1 '',
      mkdirOk = True, writeFileOk = False, chmodOk = True\<rparr>"

text \<open>A client that fails with exit code 1, under a key and under a session.\<close>

definition exitOne :: execaError where
  "exitOne = \<lparr>message = ''Command failed with exit code 1'', timedOut = False,
              exitCode = Some 1\<rparr>"

definition exampleAiWorld :: aiWorld where
  "exampleAiWorld =
     \<lparr>auth = exampleAuthWorld\<lparr>envApiKey := Some ''sk-ant-0''\<rparr>,
      claude = (\<lambda>_. Inl exitOne)\<rparr>"

definition sessionAiWorld :: aiWorld where
  "sessionAiWorld =
     \<lparr>auth = exampleAuthWorld\<lparr>claudeVersion := Inr ''1.0.0''\<rparr>,
      claude = (\<lambda>_. Inl exitOne)\<rparr>"

text \<open>
  A branch with an open pull request and one changed file to commit, and a client
  that answers with a title, a blank line and a description.
\<close>

definition exampleGhpWorld :: ghpWorld where
  "exampleGhpWorld =
     \<lparr>ai = \<lparr>auth = exampleAuthWorld\<lparr>envApiKey := Some ''sk-ant-0''\<rparr>,
            claude = (\<lambda>_. Inr (''Add widget'' @ newline # newline # ''Adds the widget.''))\<rparr>,
      gitBranch = Inr ''feature-x'',
      gitDiffNames = Inr ''src/widget.ts'', gitDiffCachedNames = Inr [],
      gitLsOthers = Inr [],
      ghcPath = ''/opt/ghc.js'', ghcRun = Inr [],
      gitUpstream = Inr ''origin/feature-x'', gitPush = Inr [],
      ghPrView = Inr ''https://github.com/x/y/pull/1'',
      gitDiffStat = Inr '' a | 1 +'', gitLog = Inr ''abc1234 add widget'',
      gitDiff = Inr ''diff --git a/a b/a'',
      tmpPath = (\<lambda>name. ''/tmp/'' @ name), now = 1700000000123, writeOk = True,
      ghPrEdit = Inr [], unlinkOk = True,
      ghPrCreate = Inr ''https://github.com/x/y/pull/2''\<rparr>"

section \<open>Facts about the string operations\<close>

lemma length_commitMarker: "length commitMarker = 30"
  by (simp add: commitMarker_def)

lemma length_prMarker: "length prMarker = 51"
  by (simp add: prMarker_def)

lemma splitLines_nonempty: "splitLines s \<noteq> []"
  by (induction s) (auto split: list.splits)

lemma splitLines_no_newline: "newline \<notin> set s \<Longrightarrow> splitLines s = [s]"
  by (induction s) auto

lemma splitLines_append:
  "newline \<notin> set a \<Longrightarrow> splitLines (a @ newline # b) = a # splitLines b"
  by (induction a) auto

lemma joinLines_Cons: "ls \<noteq> [] \<Longrightarrow> joinLines (l # ls) = l @ newline # joinLines ls"
  by (cases ls) auto

lemma joinLines_splitLines: "joinLines (splitLines s) = s"
proof (induction s)
  case Nil
  show ?case by simp
next
  case (Cons c cs)
  show ?case
  proof (cases "c = newline")
    case True
    with Cons show ?thesis by (simp add: joinLines_Cons splitLines_nonempty)
  next
    case False
    obtain l ls where sp: "splitLines cs = l # ls"
      using splitLines_nonempty by (cases "splitLines cs") auto
    with Cons False show ?thesis by (cases ls) auto
  qed
qed

lemma splitLines_lines_no_newline: "l \<in> set (splitLines s) \<Longrightarrow> newline \<notin> set l"
proof (induction s arbitrary: l)
  case Nil
  then show ?case by simp
next
  case (Cons c cs)
  then show ?case
    by (cases "splitLines cs") (auto split: if_splits)
qed

lemma splitLines_joinLines:
  "ls \<noteq> [] \<Longrightarrow> (\<And>l. l \<in> set ls \<Longrightarrow> newline \<notin> set l) \<Longrightarrow> splitLines (joinLines ls) = ls"
proof (induction ls rule: joinLines.induct)
  case 1
  then show ?case by simp
next
  case (2 l)
  then show ?case by (simp add: splitLines_no_newline)
next
  case (3 l m ls)
  then show ?case by (simp add: splitLines_append)
qed

lemma length_joinLines_filter: "length (joinLines (filter P ls)) \<le> length (joinLines ls)"
proof (induction ls rule: joinLines.induct)
  case 1
  show ?case by simp
next
  case (2 l)
  show ?case by simp
next
  case (3 l m ls)
  show ?case
  proof (cases "filter P (m # ls) = []")
    case True
    then show ?thesis by (cases "P l") auto
  next
    case False
    with 3 show ?thesis by (cases "P l") (auto simp: joinLines_Cons)
  qed
qed

section \<open>The truncation policies\<close>

lemma appendSections_length:
  "length (appendSections es acc (length acc)) \<le> max (length acc) maxCharsPR"
proof (induction es arbitrary: acc)
  case Nil
  show ?case by simp
next
  case (Cons e es)
  show ?case
  proof (cases "length acc + length (fileSection e) > maxCharsPR")
    case True
    then show ?thesis by simp
  next
    case False
    have "length (appendSections es (acc @ fileSection e) (length (acc @ fileSection e)))
            \<le> max (length (acc @ fileSection e)) maxCharsPR"
      by (rule Cons.IH)
    with False show ?thesis by simp
  qed
qed

lemma limitDiffForCommit_bound: "length (limitDiffForCommit diff) \<le> 15030"
  by (simp add: limitDiffForCommit_def maxCharsCommit_def length_commitMarker)

lemma prStructured_bound: "length (prStructured diff) \<le> max (length (prHeaderBlock diff)) 30000"
  using appendSections_length [of "collectChanges (splitLines diff)" "prHeaderBlock diff"]
  by (simp add: prStructured_def maxCharsPR_def)

lemma prHeaderBlock_le: "length (prHeaderBlock diff) \<le> length diff + 2"
  using length_joinLines_filter [of isPRFileHeader "splitLines diff"]
  by (simp add: prHeaderBlock_def prFileHeaders_def joinLines_splitLines)

text \<open>
  The header block is kept whole whatever its length, so on the structured path the
  ceiling bounds the output only from the header block on.
\<close>

lemma limitDiffForPR_bound:
  "length (limitDiffForPR diff) \<le> max 30000 (length (prHeaderBlock diff)) + 51"
proof (cases "length diff \<le> 30000")
  case True
  then show ?thesis by (simp add: limitDiffForPR_def maxCharsPR_def)
next
  case small: False
  show ?thesis
  proof (cases "100000 < length diff")
    case True
    then show ?thesis by (simp add: limitDiffForPR_def maxCharsPR_def length_prMarker)
  next
    case False
    have "length (prStructured diff) \<le> max 30000 (length (prHeaderBlock diff))"
      using prStructured_bound [of diff] by (simp add: max.commute)
    with small False show ?thesis
      by (simp add: limitDiffForPR_def maxCharsPR_def length_prMarker)
  qed
qed

lemma limitDiffForPR_bound_all: "length (limitDiffForPR diff) \<le> 100053"
proof (cases "30000 < length diff \<and> length diff \<le> 100000")
  case True
  have "max 30000 (length (prHeaderBlock diff)) \<le> 100002"
    using True prHeaderBlock_le [of diff] by simp
  with limitDiffForPR_bound [of diff] show ?thesis by linarith
next
  case False
  then show ?thesis
    by (auto simp: limitDiffForPR_def maxCharsPR_def length_prMarker)
qed

text \<open>
  Claim C1, as amended. The output of \<open>limitDiffForCommit\<close> has at most 15,030
  characters for every diff: the ceiling of 15,000 plus the 30 characters of the marker
  that hard truncation appends. The output of \<open>limitDiffForPR\<close> has at most 30,051
  characters (the ceiling of 30,000 plus the 51 characters of its marker) whenever the
  diff has at most 30,000 characters, or more than 100,000, or its header lines joined
  by newlines and followed by the two newlines of the header block fit the ceiling.
\<close>

theorem C1_lengths:
  "length (limitDiffForCommit diff) \<le> 15030 \<and>
   (length diff \<le> 30000 \<or> 100000 < length diff \<or> length (prHeaderBlock diff) \<le> 30000
      \<longrightarrow> length (limitDiffForPR diff) \<le> 30051)"
proof -
  have c: "length (limitDiffForCommit diff) \<le> 15030"
    by (rule limitDiffForCommit_bound)
  have p: "length (limitDiffForPR diff) \<le> 30051"
    if h: "length diff \<le> 30000 \<or> 100000 < length diff \<or> length (prHeaderBlock diff) \<le> 30000"
  proof (cases "length diff \<le> 30000")
    case True
    then show ?thesis by (simp add: limitDiffForPR_def maxCharsPR_def)
  next
    case small: False
    show ?thesis
    proof (cases "100000 < length diff")
      case True
      with small show ?thesis
        by (simp add: limitDiffForPR_def maxCharsPR_def length_prMarker)
    next
      case False
      with small h have hb: "length (prHeaderBlock diff) \<le> 30000" by simp
      have "length (prStructured diff) \<le> 30000"
        using prStructured_bound [of diff] hb by simp
      with small False show ?thesis
        by (simp add: limitDiffForPR_def maxCharsPR_def length_prMarker)
    qed
  qed
  from c p show ?thesis by blast
qed

lemma startsWith_replicate:
  "startsWith (replicate n c) p = (length p \<le> n \<and> p = replicate (length p) c)"
  by (auto simp: startsWith_def min_def)

lemma splitLines_replicate: "c \<noteq> newline \<Longrightarrow> splitLines (replicate n c) = [replicate n c]"
  by (rule splitLines_no_newline) auto


lemma rep3: "replicate 3 c = [c, c, c]"
  by (simp add: numeral_3_eq_3)

text \<open>
  Claim C1 as stated (commit output at most 15,000 characters, PR output at most 30,000)
  fails: a line of 15,001 plus signs is cut to 15,000 characters and the marker is
  appended (15,030); a line of 100,001 plus signs is cut to 30,000 and the marker is
  appended (30,051); a line of 30,001 minus signs is a header line, kept whole in the
  header block whatever its length (30,054).
\<close>

theorem C1_counterexample:
  "length (limitDiffForCommit (replicate 15001 (CHR ''+''))) = 15030 \<and>
   length (limitDiffForPR (replicate 100001 (CHR ''+''))) = 30051 \<and>
   length (limitDiffForPR (replicate 30001 (CHR ''-''))) = 30054"
proof -
  let ?d = "replicate 15001 (CHR ''+'')"
  have sp: "splitLines ?d = [?d]"
    by (rule splitLines_replicate) (simp add: newline_def)
  have hd: "isCommitFileHeader ?d"
    by (simp add: isCommitFileHeader_def startsWith_replicate rep3)
  have ch: "isChangeLine ?d"
    by (simp add: isChangeLine_def startsWith_replicate)
  have "commitLimitedDiff ?d = ?d @ newline # ?d"
    by (simp add: commitLimitedDiff_def commitLimitedLines_def commitFileHeaders_def
        commitChangeLines_def sp hd ch)
  then have a: "length (limitDiffForCommit ?d) = 15030"
    by (simp add: limitDiffForCommit_def maxCharsCommit_def length_commitMarker)
  have b: "length (limitDiffForPR (replicate 100001 (CHR ''+''))) = 30051"
    by (simp add: limitDiffForPR_def maxCharsPR_def length_prMarker)
  let ?e = "replicate 30001 (CHR ''-'')"
  have sp': "splitLines ?e = [?e]"
    by (rule splitLines_replicate) (simp add: newline_def)
  have hd': "isPRFileHeader ?e"
    by (simp add: isPRFileHeader_def startsWith_replicate rep3)
  have ng: "\<not> startsWith ?e ''diff --git''"
    by (simp add: startsWith_replicate)
  have hb: "prHeaderBlock ?e = ?e @ [newline, newline]"
    by (simp add: prHeaderBlock_def prFileHeaders_def sp' hd')
  have cc: "collectChanges (splitLines ?e) = []"
    by (simp add: sp' collectChanges_def collectLine_def ng)
  have "prStructured ?e = ?e @ [newline, newline]"
    by (simp add: prStructured_def hb cc)
  then have c: "length (limitDiffForPR ?e) = 30054"
    by (simp add: limitDiffForPR_def maxCharsPR_def length_prMarker)
  from a b c show ?thesis by simp
qed

text \<open>Claim C1, witness: a diff of 30,001 letters, with no header line.\<close>

theorem C1_lengths_witness:
  "length (prHeaderBlock (replicate 30001 (CHR ''a''))) \<le> 30000 \<and>
   length (limitDiffForCommit (replicate 30001 (CHR ''a''))) \<le> 15030 \<and>
   length (limitDiffForPR (replicate 30001 (CHR ''a''))) \<le> 30051"
proof -
  let ?d = "replicate 30001 (CHR ''a'')"
  have sp: "splitLines ?d = [?d]"
    by (rule splitLines_replicate) (simp add: newline_def)
  have "\<not> isPRFileHeader ?d"
    by (simp add: isPRFileHeader_def startsWith_replicate rep3)
  then have hb: "length (prHeaderBlock ?d) \<le> 30000"
    by (simp add: prHeaderBlock_def prFileHeaders_def sp)
  with C1_lengths [of ?d] show ?thesis by blast
qed


lemma commit_example_lines:
  "splitLines (''+++ b/f'' @ newline # replicate 15000 (CHR ''x''))
     = [''+++ b/f'', replicate 15000 (CHR ''x'')]"
proof -
  have "newline \<notin> set ''+++ b/f''" by (simp add: newline_def)
  then have "splitLines (''+++ b/f'' @ newline # replicate 15000 (CHR ''x''))
          = ''+++ b/f'' # splitLines (replicate 15000 (CHR ''x''))"
    by (rule splitLines_append)
  also have "splitLines (replicate 15000 (CHR ''x'')) = [replicate 15000 (CHR ''x'')]"
    by (rule splitLines_replicate) (simp add: newline_def)
  finally show ?thesis .
qed

lemma commit_example_classes:
  "isCommitFileHeader ''+++ b/f''" "isChangeLine ''+++ b/f''"
  "\<not> isCommitFileHeader (replicate 15000 (CHR ''x''))"
  "\<not> isChangeLine (replicate 15000 (CHR ''x''))"
  by (simp_all add: isCommitFileHeader_def isChangeLine_def startsWith_def startsWith_replicate)

lemma commit_example_limited:
  "commitLimitedLines (''+++ b/f'' @ newline # replicate 15000 (CHR ''x''))
     = [''+++ b/f'', ''+++ b/f'']"
  by (simp add: commitLimitedLines_def commitFileHeaders_def commitChangeLines_def
      commit_example_lines commit_example_classes del: append.simps)

text \<open>
  Claim C3, as amended. For a diff of more than 15,000 characters the policy selects,
  from the lines of the diff, the header lines (those starting with \<open>diff --git\<close>,
  \<open>+++\<close> or \<open>---\<close>) and the change lines (those starting with \<open>+\<close> or \<open>-\<close>).
  The structured output is every header line, in order, followed by the first at most
  200 change lines, joined by newlines, and these are exactly the lines of that output.
  The result is the structured output when it has at most 15,000 characters, and
  otherwise the first 15,000 characters of the diff followed by the marker; the marker
  fallback is the result exactly when the structured output exceeds the ceiling.
\<close>

theorem C3_structured:
  assumes big: "15000 < length diff"
  shows "commitLimitedLines diff
           = filter isCommitFileHeader (splitLines diff)
             @ take 200 (filter isChangeLine (splitLines diff))
       \<and> length (commitLimitedLines diff)
           \<le> length (filter isCommitFileHeader (splitLines diff)) + 200
       \<and> splitLines (commitLimitedDiff diff)
           = (if commitLimitedLines diff = [] then [[]] else commitLimitedLines diff)
       \<and> limitDiffForCommit diff
           = (if length (commitLimitedDiff diff) \<le> 15000 then commitLimitedDiff diff
              else take 15000 diff @ newline # newline # ''[diff truncated due to size]'')
       \<and> ((limitDiffForCommit diff
              = take 15000 diff @ newline # newline # ''[diff truncated due to size]'')
            = (15000 < length (commitLimitedDiff diff)))"
proof -
  have a: "commitLimitedLines diff
           = filter isCommitFileHeader (splitLines diff)
             @ take 200 (filter isChangeLine (splitLines diff))"
    by (simp add: commitLimitedLines_def commitFileHeaders_def commitChangeLines_def)
  have a': "length (commitLimitedLines diff)
           \<le> length (filter isCommitFileHeader (splitLines diff)) + 200"
    by (simp add: a)
  have nl: "newline \<notin> set l" if "l \<in> set (commitLimitedLines diff)" for l
  proof -
    from that have "l \<in> set (splitLines diff)"
      by (auto simp: a dest: in_set_takeD)
    then show ?thesis by (rule splitLines_lines_no_newline)
  qed
  have b: "splitLines (commitLimitedDiff diff)
           = (if commitLimitedLines diff = [] then [[]] else commitLimitedLines diff)"
  proof (cases "commitLimitedLines diff = []")
    case True
    then show ?thesis by (simp add: commitLimitedDiff_def)
  next
    case False
    then show ?thesis
      using splitLines_joinLines [of "commitLimitedLines diff"] nl
      by (simp add: commitLimitedDiff_def)
  qed
  have c: "limitDiffForCommit diff
           = (if length (commitLimitedDiff diff) \<le> 15000 then commitLimitedDiff diff
              else take 15000 diff @ newline # newline # ''[diff truncated due to size]'')"
    using big by (simp add: limitDiffForCommit_def maxCharsCommit_def commitMarker_def)
  have d: "(limitDiffForCommit diff
              = take 15000 diff @ newline # newline # ''[diff truncated due to size]'')
            = (15000 < length (commitLimitedDiff diff))"
  proof (cases "length (commitLimitedDiff diff) \<le> 15000")
    case True
    have len: "length (take 15000 diff @ newline # newline # ''[diff truncated due to size]'') = 15030"
      using big by simp
    have "commitLimitedDiff diff
        \<noteq> take 15000 diff @ newline # newline # ''[diff truncated due to size]''"
    proof
      assume "commitLimitedDiff diff
        = take 15000 diff @ newline # newline # ''[diff truncated due to size]''"
      then have "length (commitLimitedDiff diff) = 15030" using len by metis
      with True show False by arith
    qed
    with True c show ?thesis by (simp only: if_True simp_thms not_less)
  next
    case False
    with c show ?thesis by simp
  qed
  from a a' b c d show ?thesis by (intro conjI)
qed

text \<open>Claim C3, witness: a header line followed by a context line of 15,000 characters.\<close>

theorem C3_structured_witness:
  "15000 < length (''+++ b/f'' @ newline # replicate 15000 (CHR ''x''))
   \<and> limitDiffForCommit (''+++ b/f'' @ newline # replicate 15000 (CHR ''x''))
       = ''+++ b/f'' @ newline # ''+++ b/f''"
proof -
  let ?D = "''+++ b/f'' @ newline # replicate 15000 (CHR ''x'')"
  have big: "15000 < length ?D" by simp
  have ld: "commitLimitedDiff ?D = ''+++ b/f'' @ newline # ''+++ b/f''"
    by (simp add: commitLimitedDiff_def commit_example_limited del: append.simps)
  then have small: "length (commitLimitedDiff ?D) \<le> 15000" by simp
  have "limitDiffForCommit ?D
           = (if length (commitLimitedDiff ?D) \<le> 15000 then commitLimitedDiff ?D
              else take 15000 ?D @ newline # newline # ''[diff truncated due to size]'')"
    using C3_structured [OF big] by (elim conjE)
  with small have "limitDiffForCommit ?D = commitLimitedDiff ?D"
    by (simp only: if_True)
  with ld big show ?thesis by (simp only: simp_thms)
qed

text \<open>
  Claim C3 as stated says that the lines are partitioned into header lines and change
  lines. The two selections are not a partition: the line \<open>+++ b/f\<close> is a header line
  and a change line at once, the context line is neither, and the structured output
  holds the header line twice.
\<close>

theorem C3_counterexample:
  "15000 < length (''+++ b/f'' @ newline # replicate 15000 (CHR ''x''))
   \<and> splitLines (''+++ b/f'' @ newline # replicate 15000 (CHR ''x''))
       = [''+++ b/f'', replicate 15000 (CHR ''x'')]
   \<and> isCommitFileHeader ''+++ b/f'' \<and> isChangeLine ''+++ b/f''
   \<and> \<not> isCommitFileHeader (replicate 15000 (CHR ''x''))
   \<and> \<not> isChangeLine (replicate 15000 (CHR ''x''))
   \<and> commitLimitedLines (''+++ b/f'' @ newline # replicate 15000 (CHR ''x''))
       = [''+++ b/f'', ''+++ b/f'']"
  using commit_example_lines commit_example_classes commit_example_limited by simp

text \<open>
  Claim C6. A diff of at most 15,000 characters is returned unchanged by
  \<open>limitDiffForCommit\<close>, and a diff of at most 30,000 characters is returned unchanged
  by \<open>limitDiffForPR\<close>.
\<close>

theorem C6_identity:
  "(length diff \<le> 15000 \<longrightarrow> limitDiffForCommit diff = diff) \<and>
   (length diff \<le> 30000 \<longrightarrow> limitDiffForPR diff = diff)"
  by (simp add: limitDiffForCommit_def limitDiffForPR_def maxCharsCommit_def maxCharsPR_def)

text \<open>Claim C6, witness: a one-line diff.\<close>

theorem C6_identity_witness:
  "length ''diff --git a/x b/x'' \<le> 15000
   \<and> limitDiffForCommit ''diff --git a/x b/x'' = ''diff --git a/x b/x''
   \<and> limitDiffForPR ''diff --git a/x b/x'' = ''diff --git a/x b/x''"
  using C6_identity [of "''diff --git a/x b/x''"] by simp

text \<open>
  Claim C7. For a diff of more than 100,000 characters \<open>limitDiffForPR\<close> returns the
  first 30,000 characters of the diff followed by the truncation marker: the result
  does not depend on the per-file grouping, and it ends with the marker.
\<close>

theorem C7_hard_truncation:
  assumes "100000 < length diff"
  shows "limitDiffForPR diff
           = take 30000 diff @ newline # newline # ''[Diff truncated - PR contains additional changes]''
       \<and> drop 30000 (limitDiffForPR diff)
           = newline # newline # ''[Diff truncated - PR contains additional changes]''
       \<and> take 30000 (limitDiffForPR diff) = take 30000 diff"
  using assms by (simp add: limitDiffForPR_def maxCharsPR_def prMarker_def)

text \<open>Claim C7, witness: a diff of 100,001 letters.\<close>

theorem C7_hard_truncation_witness:
  "100000 < length (replicate 100001 (CHR ''a''))
   \<and> limitDiffForPR (replicate 100001 (CHR ''a''))
       = replicate 30000 (CHR ''a'') @ newline # newline # ''[Diff truncated - PR contains additional changes]''"
  using C7_hard_truncation [of "replicate 100001 (CHR ''a'')"] by simp

section \<open>Authentication resolution and the AI client\<close>

lemma promptForApiKey_result:
  "snd (promptForApiKey w) =
     (if trim (answer w) = [] then Inl (Error ''API key is required for AI features'')
      else Inr \<lparr>methodOf = PromptMethod, keyOf = JString (trim (answer w))\<rparr>)"
  by (simp add: promptForApiKey_def Let_def)

lemma sourcesConsulted_saveApiKey: "sourcesConsulted (saveApiKey w k) = []"
  by (simp add: saveApiKey_def sourcesConsulted_def List.map_filter_simps)

lemma sourcesConsulted_append:
  "sourcesConsulted (xs @ ys) = sourcesConsulted xs @ sourcesConsulted ys"
  by (simp add: sourcesConsulted_def List.map_filter_def)

lemma sourcesConsulted_Cons:
  "sourcesConsulted (e # evs) =
     (case sourceOf e of None \<Rightarrow> sourcesConsulted evs | Some s \<Rightarrow> s # sourcesConsulted evs)"
  by (simp add: sourcesConsulted_def List.map_filter_simps split: option.splits)

lemma sourcesConsulted_Nil: "sourcesConsulted [] = []"
  by (simp add: sourcesConsulted_def List.map_filter_simps)

lemma sourcesConsulted_prompt:
  "sourcesConsulted (fst (promptForApiKey w)) = [InteractivePrompt]"
  by (simp add: promptForApiKey_def Let_def sourcesConsulted_append sourcesConsulted_Cons
      sourcesConsulted_Nil sourcesConsulted_saveApiKey)

lemma readStoredConfig_cases:
  "readStoredConfig w =
     (case storedKey w of
        Some v \<Rightarrow> ([ReadFile (configPath w)], Inr \<lparr>methodOf = ConfigMethod, keyOf = v\<rparr>)
      | None \<Rightarrow> (ReadFile (configPath w) # fst (promptForApiKey w), snd (promptForApiKey w)))"
  by (simp add: readStoredConfig_def storedKey_def Let_def split: option.splits)

lemma probeClaudeCli_cases:
  "probeClaudeCli w =
     (case claudeVersion w of
        Inr _ \<Rightarrow> ([ExecProbe ''claude --version''],
                  Inr \<lparr>methodOf = ClaudeCliMethod, keyOf = JNull\<rparr>)
      | Inl _ \<Rightarrow> (ExecProbe ''claude --version'' # fst (readStoredConfig w),
                  snd (readStoredConfig w)))"
  by (simp add: probeClaudeCli_def exec_def Let_def split: sum.splits)

lemma getAnthropicApiKey_cases:
  "getAnthropicApiKey w =
     (if truthyString (envApiKey w)
      then ([EnvLookup], Inr \<lparr>methodOf = EnvMethod, keyOf = JString (orEmpty (envApiKey w))\<rparr>)
      else (EnvLookup # fst (probeClaudeCli w), snd (probeClaudeCli w)))"
  by (simp add: getAnthropicApiKey_def truthyString_def orEmpty_def Let_def split: option.splits)

lemma sources_config:
  "sourcesConsulted (fst (readStoredConfig w)) =
     (if storedKey w = None then [SavedConfig, InteractivePrompt] else [SavedConfig])"
  by (simp add: readStoredConfig_cases sourcesConsulted_Cons sourcesConsulted_Nil
      sourcesConsulted_prompt split: option.splits)

lemma sources_probe:
  "sourcesConsulted (fst (probeClaudeCli w)) =
     (if isl (claudeVersion w)
      then CliSession # sourcesConsulted (fst (readStoredConfig w))
      else [CliSession])"
  by (simp add: probeClaudeCli_cases sourcesConsulted_Cons sourcesConsulted_Nil
      split: sum.splits)

lemma sources_all:
  "sourcesConsulted (fst (getAnthropicApiKey w)) =
     (if truthyString (envApiKey w) then [Environment]
      else if \<not> isl (claudeVersion w) then [Environment, CliSession]
      else if storedKey w \<noteq> None then [Environment, CliSession, SavedConfig]
      else [Environment, CliSession, SavedConfig, InteractivePrompt])"
  by (simp add: getAnthropicApiKey_cases sources_probe sources_config sourcesConsulted_Cons
      sourcesConsulted_Nil)

text \<open>
  Claim C2, as amended. Resolution consults its sources in the fixed order environment
  variable, AI-CLI session probe, saved configuration file, interactive prompt: the
  sources consulted are an initial part of that list, and each source is consulted
  exactly when every earlier one yielded nothing (the variable unset or empty, the
  probe failing, the file unreadable or without a truthy key). When the variable is
  set to a non-empty key, resolution returns method \<open>env\<close> with that key and does
  nothing but look the variable up.
\<close>

theorem C2_priority_chain:
  "(\<exists>n. 0 < n \<and> sourcesConsulted (fst (getAnthropicApiKey w))
            = take n [Environment, CliSession, SavedConfig, InteractivePrompt])
   \<and> (CliSession \<in> set (sourcesConsulted (fst (getAnthropicApiKey w))))
       = (\<not> truthyString (envApiKey w))
   \<and> (SavedConfig \<in> set (sourcesConsulted (fst (getAnthropicApiKey w))))
       = (\<not> truthyString (envApiKey w) \<and> isl (claudeVersion w))
   \<and> (InteractivePrompt \<in> set (sourcesConsulted (fst (getAnthropicApiKey w))))
       = (\<not> truthyString (envApiKey w) \<and> isl (claudeVersion w) \<and> storedKey w = None)
   \<and> (envApiKey w = Some k \<and> k \<noteq> [] \<longrightarrow>
        getAnthropicApiKey w = ([EnvLookup], Inr \<lparr>methodOf = EnvMethod, keyOf = JString k\<rparr>))"
proof -
  let ?s = "sourcesConsulted (fst (getAnthropicApiKey w))"
  let ?all = "[Environment, CliSession, SavedConfig, InteractivePrompt]"
  have "?s = take 1 ?all \<or> ?s = take 2 ?all \<or> ?s = take 3 ?all \<or> ?s = take 4 ?all"
    by (simp add: sources_all)
  then have a: "\<exists>n. 0 < n \<and> ?s = take n ?all"
    by (metis zero_less_numeral zero_less_one)
  have b: "(CliSession \<in> set ?s) = (\<not> truthyString (envApiKey w))"
    by (simp add: sources_all)
  have c: "(SavedConfig \<in> set ?s) = (\<not> truthyString (envApiKey w) \<and> isl (claudeVersion w))"
    by (simp add: sources_all)
  have d: "(InteractivePrompt \<in> set ?s)
       = (\<not> truthyString (envApiKey w) \<and> isl (claudeVersion w) \<and> storedKey w = None)"
    by (simp add: sources_all)
  have e: "envApiKey w = Some k \<and> k \<noteq> [] \<longrightarrow>
        getAnthropicApiKey w = ([EnvLookup], Inr \<lparr>methodOf = EnvMethod, keyOf = JString k\<rparr>)"
    by (simp add: getAnthropicApiKey_def)
  from a b c d e show ?thesis by (intro conjI)
qed

text \<open>Claim C2, witness: the variable holds a key.\<close>

theorem C2_priority_chain_witness:
  "getAnthropicApiKey (exampleAuthWorld\<lparr>envApiKey := Some ''sk-ant-0''\<rparr>)
     = ([EnvLookup], Inr \<lparr>methodOf = EnvMethod, keyOf = JString ''sk-ant-0''\<rparr>)"
  using C2_priority_chain [of "exampleAuthWorld\<lparr>envApiKey := Some ''sk-ant-0''\<rparr>" "''sk-ant-0''"]
  by (simp add: exampleAuthWorld_def)

text \<open>
  Claim C2 as stated speaks of every environment where the variable is set. Set to the
  empty string it counts as absent: the session probe runs, and here answers, so the
  method is \<open>claude-cli\<close>.
\<close>

theorem C2_counterexample:
  "envApiKey (exampleAuthWorld\<lparr>envApiKey := Some [], claudeVersion := Inr ''1.0.0''\<rparr>) = Some []
   \<and> getAnthropicApiKey (exampleAuthWorld\<lparr>envApiKey := Some [], claudeVersion := Inr ''1.0.0''\<rparr>)
     = ([EnvLookup, ExecProbe ''claude --version''],
        Inr \<lparr>methodOf = ClaudeCliMethod, keyOf = JNull\<rparr>)"
  by (simp add: exampleAuthWorld_def getAnthropicApiKey_def probeClaudeCli_def exec_def)

lemma storedKey_Some:
  "storedKey w = Some v \<Longrightarrow>
     truthy v \<and> (\<exists>c. configRead w = Some c \<and> anthropicApiKeyOf c = Some v)"
  by (auto simp: storedKey_def split: option.splits if_splits)

text \<open>
  Whatever resolution returns, the key is \<open>null\<close> exactly under the method
  \<open>claude-cli\<close>, and under the methods \<open>env\<close> and \<open>prompt\<close> it is a non-empty
  string.
\<close>

lemma resolved_key_shape:
  assumes "snd (getAnthropicApiKey w) = Inr r"
  shows "(keyOf r = JNull) = (methodOf r = ClaudeCliMethod)
       \<and> (methodOf r = EnvMethod \<or> methodOf r = PromptMethod
            \<longrightarrow> (\<exists>s. keyOf r = JString s \<and> s \<noteq> []))"
proof (cases "truthyString (envApiKey w)")
  case True
  with assms have "r = \<lparr>methodOf = EnvMethod, keyOf = JString (orEmpty (envApiKey w))\<rparr>"
    by (simp add: getAnthropicApiKey_cases)
  moreover from True have "orEmpty (envApiKey w) \<noteq> []"
    by (auto simp: truthyString_def orEmpty_def split: option.splits)
  ultimately show ?thesis by simp
next
  case env: False
  show ?thesis
  proof (cases "claudeVersion w")
    case (Inr out)
    with env assms have "r = \<lparr>methodOf = ClaudeCliMethod, keyOf = JNull\<rparr>"
      by (simp add: getAnthropicApiKey_cases probeClaudeCli_cases)
    then show ?thesis by simp
  next
    case (Inl err)
    show ?thesis
    proof (cases "storedKey w")
      case (Some v)
      with env Inl assms have r: "r = \<lparr>methodOf = ConfigMethod, keyOf = v\<rparr>"
        by (simp add: getAnthropicApiKey_cases probeClaudeCli_cases readStoredConfig_cases)
      from Some have "truthy v \<and> (\<exists>c. configRead w = Some c \<and> anthropicApiKeyOf c = Some v)"
        by (rule storedKey_Some)
      then have "v \<noteq> JNull" by auto
      then show ?thesis using r by simp
    next
      case None
      with env Inl assms have
        "(if trim (answer w) = [] then Inl (Error ''API key is required for AI features'')
          else Inr \<lparr>methodOf = PromptMethod, keyOf = JString (trim (answer w))\<rparr>) = Inr r"
        by (simp add: getAnthropicApiKey_cases probeClaudeCli_cases readStoredConfig_cases
            promptForApiKey_result)
      then have "trim (answer w) \<noteq> []
          \<and> r = \<lparr>methodOf = PromptMethod, keyOf = JString (trim (answer w))\<rparr>"
        by (auto split: if_splits)
      then show ?thesis by simp
    qed
  qed
qed

text \<open>
  Claim C8: under the method \<open>config\<close> the key is a string, as \<open>AuthResult\<close> declares
  it (\<open>string | null\<close>). The code does not keep to it. With no key in the environment
  and no AI client, a configuration file holding \<open>{"anthropicApiKey": true}\<close> makes
  resolution return method \<open>config\<close> with the key \<open>true\<close>, the value as
  \<open>JSON.parse\<close> gave it; the same file holding a string gives that string.
\<close>

theorem C8_config_key_unchecked:
  "getAnthropicApiKey (exampleAuthWorld\<lparr>configRead :=
            Some (JObject [(''anthropicApiKey'', JBool True)])\<rparr>)
     = ([EnvLookup, ExecProbe ''claude --version'',
         ReadFile ''/home/u/.gh-claude-tools/config.json''],
        Inr \<lparr>methodOf = ConfigMethod, keyOf = JBool True\<rparr>)
   \<and> getAnthropicApiKey (exampleAuthWorld\<lparr>configRead :=
            Some (JObject [(''anthropicApiKey'', JString ''sk-ant-2'')])\<rparr>)
     = ([EnvLookup, ExecProbe ''claude --version'',
         ReadFile ''/home/u/.gh-claude-tools/config.json''],
        Inr \<lparr>methodOf = ConfigMethod, keyOf = JString ''sk-ant-2''\<rparr>)"
  by (simp add: exampleAuthWorld_def getAnthropicApiKey_def probeClaudeCli_def exec_def
      readStoredConfig_def)

lemma last_saveApiKey:
  "last (saveApiKey w k) =
     (if mkdirOk w \<and> writeFileOk w \<and> chmodOk w then ConsoleLog ApiKeySaved
      else ConsoleWarn CouldNotSaveApiKey)"
  by (simp add: saveApiKey_def)

lemma saveApiKey_nonempty: "saveApiKey w k \<noteq> []"
  by (simp add: saveApiKey_def)

text \<open>
  Claim C9. On the prompt path (no key in the environment, the probe failing, nothing
  in the configuration file), resolution fails with the error
  \<open>API key is required for AI features\<close> when the trimmed line is empty, and
  otherwise returns method \<open>prompt\<close> with the trimmed line, whatever \<open>mkdir\<close>,
  \<open>writeFile\<close> and \<open>chmod\<close> do; when one of them fails the last thing resolution
  does is to print the warning.
\<close>

theorem C9_prompt_path:
  assumes "\<not> truthyString (envApiKey w)" and "isl (claudeVersion w)" and "storedKey w = None"
  shows "snd (getAnthropicApiKey w) =
           (if trim (answer w) = [] then Inl (Error ''API key is required for AI features'')
            else Inr \<lparr>methodOf = PromptMethod, keyOf = JString (trim (answer w))\<rparr>)
       \<and> (trim (answer w) \<noteq> [] \<longrightarrow>
            last (fst (getAnthropicApiKey w)) =
              (if mkdirOk w \<and> writeFileOk w \<and> chmodOk w then ConsoleLog ApiKeySaved
               else ConsoleWarn CouldNotSaveApiKey))"
proof -
  from assms(2) obtain err where inl: "claudeVersion w = Inl err"
    by (cases "claudeVersion w") auto
  from assms(1,3) inl have g: "getAnthropicApiKey w =
      (EnvLookup # ExecProbe ''claude --version'' # ReadFile (configPath w)
         # fst (promptForApiKey w), snd (promptForApiKey w))"
    by (simp add: getAnthropicApiKey_cases probeClaudeCli_cases readStoredConfig_cases)
  have a: "snd (getAnthropicApiKey w) =
           (if trim (answer w) = [] then Inl (Error ''API key is required for AI features'')
            else Inr \<lparr>methodOf = PromptMethod, keyOf = JString (trim (answer w))\<rparr>)"
    by (simp add: g promptForApiKey_result)
  have b: "last (fst (getAnthropicApiKey w)) =
              (if mkdirOk w \<and> writeFileOk w \<and> chmodOk w then ConsoleLog ApiKeySaved
               else ConsoleWarn CouldNotSaveApiKey)" if "trim (answer w) \<noteq> []"
  proof -
    from that have "fst (promptForApiKey w) =
        [ConsoleLog ApiKeyRequired, ConsoleLog GetYourApiKey,
         Question ''Enter your Anthropic API key: ''] @ saveApiKey w (trim (answer w))"
      by (simp add: promptForApiKey_def Let_def)
    then have "last (fst (getAnthropicApiKey w)) = last (saveApiKey w (trim (answer w)))"
      by (simp add: g saveApiKey_nonempty)
    then show ?thesis by (simp add: last_saveApiKey)
  qed
  from a b show ?thesis by blast
qed

lemma trim_example: "trim '' sk-ant-1 '' = ''sk-ant-1''"
  by (simp add: trim_def isWhiteSpace_def)

lemma trim_blank: "trim ''   '' = []"
  by (simp add: trim_def isWhiteSpace_def)

text \<open>
  Claim C9, witness: a key typed between blanks while the file cannot be written, and
  a line of blanks.
\<close>

theorem C9_prompt_path_witness:
  "\<not> truthyString (envApiKey exampleAuthWorld) \<and> isl (claudeVersion exampleAuthWorld)
   \<and> storedKey exampleAuthWorld = None \<and> \<not> writeFileOk exampleAuthWorld
   \<and> snd (getAnthropicApiKey exampleAuthWorld)
       = Inr \<lparr>methodOf = PromptMethod, keyOf = JString ''sk-ant-1''\<rparr>
   \<and> last (fst (getAnthropicApiKey exampleAuthWorld)) = ConsoleWarn CouldNotSaveApiKey
   \<and> snd (getAnthropicApiKey (exampleAuthWorld\<lparr>answer := ''   ''\<rparr>))
       = Inl (Error ''API key is required for AI features'')"
proof -
  have h: "\<not> truthyString (envApiKey exampleAuthWorld)" "isl (claudeVersion exampleAuthWorld)"
    "storedKey exampleAuthWorld = None"
    by (simp_all add: exampleAuthWorld_def truthyString_def storedKey_def)
  have h': "\<not> truthyString (envApiKey (exampleAuthWorld\<lparr>answer := ''   ''\<rparr>))"
    "isl (claudeVersion (exampleAuthWorld\<lparr>answer := ''   ''\<rparr>))"
    "storedKey (exampleAuthWorld\<lparr>answer := ''   ''\<rparr>) = None"
    by (simp_all add: exampleAuthWorld_def truthyString_def storedKey_def)
  have t: "trim (answer exampleAuthWorld) = ''sk-ant-1''"
    by (simp add: exampleAuthWorld_def trim_example)
  have t': "trim (answer (exampleAuthWorld\<lparr>answer := ''   ''\<rparr>)) = []"
    by (simp add: trim_blank)
  have w: "\<not> writeFileOk exampleAuthWorld" by (simp add: exampleAuthWorld_def)
  from C9_prompt_path [OF h] t w
  have 1: "snd (getAnthropicApiKey exampleAuthWorld)
       = Inr \<lparr>methodOf = PromptMethod, keyOf = JString ''sk-ant-1''\<rparr>
     \<and> last (fst (getAnthropicApiKey exampleAuthWorld)) = ConsoleWarn CouldNotSaveApiKey"
    by simp
  from C9_prompt_path [OF h'] t'
  have 2: "snd (getAnthropicApiKey (exampleAuthWorld\<lparr>answer := ''   ''\<rparr>))
       = Inl (Error ''API key is required for AI features'')"
    by simp
  from h w 1 2 show ?thesis by simp
qed

lemma andThen_Inl: "andThen (evs, Inl e) f = (evs, Inl e)"
  by (simp add: andThen_def)

lemma andThen_Inr: "andThen (evs, Inr x) f = (evs @ fst (f x), snd (f x))"
  by (simp add: andThen_def Let_def)

lemma orExit1_Inl: "orExit1 (evs, Inl e) k = (evs, 1)"
  by (simp add: orExit1_def)

lemma orExit1_Inr: "orExit1 (evs, Inr x) k = (evs @ fst (k x), snd (k x))"
  by (simp add: orExit1_def Let_def)

lemma executeClaudeCommand_result:
  "snd (getAnthropicApiKey (auth w)) = Inr a \<Longrightarrow>
   snd (executeClaudeCommand w prompt input) = snd (invokeClaude (claude w) a prompt input)"
  by (simp add: executeClaudeCommand_def andThen_Inr)

lemma invokeClaude_failure:
  "cl (invocationFor a prompt input) = Inl err \<Longrightarrow>
   snd (invokeClaude cl a prompt input) =
     (if timedOut err then Inl (Error timedOutMessage)
      else if methodOf a \<noteq> ClaudeCliMethod \<and> exitCodeTruthy err
        then Inl (Error ''Claude CLI not found'')
      else Inl (Thrown err))"
  by (simp add: invokeClaude_def invocationFor_def split: if_splits)

text \<open>
  Claim C4, as amended. When the call of the AI client fails: if it timed out, the
  error thrown is \<open>Claude CLI timed out after 90 seconds\<close> with its suggestion of
  the cause, the configured timeout being 90,000 milliseconds, whatever the
  authentication method; otherwise, if the method is not \<open>claude-cli\<close> and the exit
  code is a number other than zero, the error is \<open>Claude CLI not found\<close>; every
  other failure is rethrown unchanged, and so is a nonzero exit under the method
  \<open>claude-cli\<close>.
\<close>

theorem C4_failure_classes:
  assumes "snd (getAnthropicApiKey (auth w)) = Inr a"
    and "claude w (invocationFor a prompt input) = Inl err"
  shows "snd (executeClaudeCommand w prompt input) =
           (if timedOut err
              then Inl (Error ''Claude CLI timed out after 90 seconds. The diff may be too large or Claude API is slow.'')
            else if methodOf a \<noteq> ClaudeCliMethod \<and> (\<exists>n. exitCode err = Some n \<and> n \<noteq> 0)
              then Inl (Error ''Claude CLI not found'')
            else Inl (Thrown err))
       \<and> timeoutMs (invocationFor a prompt input) = 90 * 1000"
proof -
  have ex: "exitCodeTruthy err = (\<exists>n. exitCode err = Some n \<and> n \<noteq> 0)"
    by (simp add: exitCodeTruthy_def split: option.splits)
  have "snd (executeClaudeCommand w prompt input) = snd (invokeClaude (claude w) a prompt input)"
    using assms(1) by (rule executeClaudeCommand_result)
  also have "\<dots> = (if timedOut err then Inl (Error timedOutMessage)
      else if methodOf a \<noteq> ClaudeCliMethod \<and> exitCodeTruthy err
        then Inl (Error ''Claude CLI not found'')
      else Inl (Thrown err))"
    using assms(2) by (rule invokeClaude_failure)
  finally have a: "snd (executeClaudeCommand w prompt input) =
           (if timedOut err
              then Inl (Error ''Claude CLI timed out after 90 seconds. The diff may be too large or Claude API is slow.'')
            else if methodOf a \<noteq> ClaudeCliMethod \<and> (\<exists>n. exitCode err = Some n \<and> n \<noteq> 0)
              then Inl (Error ''Claude CLI not found'')
            else Inl (Thrown err))"
    by (simp only: ex timedOutMessage_def)
  have b: "timeoutMs (invocationFor a prompt input) = 90 * 1000"
    by (simp add: invocationFor_def sessionInvocation_def keyInvocation_def claudeTimeoutMs_def)
  from a b show ?thesis ..
qed

text \<open>Claim C4, witness: exit code 1 under a key from the environment.\<close>

theorem C4_failure_classes_witness:
  "snd (getAnthropicApiKey (auth exampleAiWorld))
     = Inr \<lparr>methodOf = EnvMethod, keyOf = JString ''sk-ant-0''\<rparr>
   \<and> claude exampleAiWorld
       (invocationFor \<lparr>methodOf = EnvMethod, keyOf = JString ''sk-ant-0''\<rparr> ''p'' ''d'')
     = Inl exitOne
   \<and> snd (executeClaudeCommand exampleAiWorld ''p'' ''d'') = Inl (Error ''Claude CLI not found'')"
proof -
  let ?a = "\<lparr>methodOf = EnvMethod, keyOf = JString ''sk-ant-0''\<rparr>"
  have 1: "snd (getAnthropicApiKey (auth exampleAiWorld)) = Inr ?a"
    by (simp add: exampleAiWorld_def exampleAuthWorld_def getAnthropicApiKey_def)
  have 2: "claude exampleAiWorld (invocationFor ?a ''p'' ''d'') = Inl exitOne"
    by (simp add: exampleAiWorld_def)
  from C4_failure_classes [OF 1 2]
  have "snd (executeClaudeCommand exampleAiWorld ''p'' ''d'') = Inl (Error ''Claude CLI not found'')"
    by (simp add: exitOne_def)
  with 1 2 show ?thesis by simp
qed

text \<open>
  Claim C4 as stated applies the exit-code class to every authentication method. Under
  an authenticated session a failure with exit code 1 is rethrown as it is.
\<close>

theorem C4_counterexample:
  "snd (getAnthropicApiKey (auth sessionAiWorld))
     = Inr \<lparr>methodOf = ClaudeCliMethod, keyOf = JNull\<rparr>
   \<and> \<not> timedOut exitOne \<and> exitCode exitOne = Some 1
   \<and> snd (executeClaudeCommand sessionAiWorld ''p'' ''d'') = Inl (Thrown exitOne)"
  by (simp add: sessionAiWorld_def exampleAuthWorld_def getAnthropicApiKey_def
      probeClaudeCli_def exec_def executeClaudeCommand_def andThen_Inr invokeClaude_def
      exitOne_def)

section \<open>The Push-and-PR orchestrator\<close>

lemma quiet_Nil: "quiet []"
  by (simp add: quiet_def)

lemma quiet_append: "quiet (xs @ ys) = (quiet xs \<and> quiet ys)"
  by (simp add: quiet_def)

lemma quiet_Cons: "quiet (e # es) = (quietEvent e \<and> quiet es)"
  by (simp add: quiet_def)

lemma quiet_Auth: "quiet (map Auth evs)"
  by (induction evs) (simp_all add: quiet_def)

lemma quiet_andThen:
  "quiet (fst m) \<Longrightarrow> (\<And>x. quiet (fst (f x))) \<Longrightarrow> quiet (fst (andThen m f))"
  by (cases m; cases "snd m") (simp_all add: andThen_Inl andThen_Inr quiet_append)

lemma quiet_getPRContext: "quiet (fst (getPRContext w))"
  unfolding getPRContext_def
  by (intro quiet_andThen) (simp_all add: quiet_Cons quiet_Nil)

lemma quiet_invokeClaude: "quiet (fst (invokeClaude cl a prompt input))"
  by (simp add: invokeClaude_def quiet_Cons quiet_Nil claudeCommand_def split: sum.splits)

lemma quiet_generatePRContent: "quiet (fst (generatePRContent w c))"
  unfolding generatePRContent_def executeClaudeCommand_def
  by (rule quiet_andThen) (simp_all add: quiet_Auth quiet_invokeClaude)


lemma orExit1_fail: "snd m = Inl e \<Longrightarrow> orExit1 m k = (fst m, 1)"
  by (simp add: orExit1_def)

lemma orExit1_ok: "snd m = Inr x \<Longrightarrow> orExit1 m k = (fst m @ fst (k x), snd (k x))"
  by (simp add: orExit1_def Let_def)

lemma exec_throwing: "exec outcome None = (case outcome of Inl e \<Rightarrow> Inl (Thrown e) | Inr out \<Rightarrow> Inr (Some out))"
  by (simp add: exec_def split: sum.splits)

lemma updateExistingPR_steps:
  assumes ctx: "snd (getPRContext w) = Inr ctx"
    and gen: "snd (generatePRContent (ai w) ctx) = Inr content"
    and wr: "writeOk w"
  shows "updateExistingPR w =
           (fst (getPRContext w) @ fst (generatePRContent (ai w) ctx)
              @ [WriteFileSync (editTmpFile w) (prDescription content), Run (editCommand w)]
              @ (if \<not> isl (ghPrEdit w) \<and> unlinkOk w then [UnlinkSync (editTmpFile w)] else []),
            if \<not> isl (ghPrEdit w) \<and> unlinkOk w then 0 else 1)"
  using wr
  by (cases "ghPrEdit w")
     (simp_all add: updateExistingPR_def orExit1_ok [OF ctx] orExit1_ok [OF gen] Let_def
       orExit1_Inl orExit1_Inr exec_throwing editTmpFile_def editCommand_def)

lemma natToString_ex: "natToString 1700000000123 = ''1700000000123''"
  by (simp add: natToString.simps digitChar_def)

lemma example_trim: "trim (''Add widget'' @ newline # newline # ''Adds the widget.'')
   = ''Add widget'' @ newline # newline # ''Adds the widget.''"
  by (simp add: trim_def isWhiteSpace_def newline_def)

lemma example_description:
  "prDescription (''Add widget'' @ newline # newline # ''Adds the widget.'') = ''Adds the widget.''"
  by (simp add: prDescription_def newline_def)

lemma example_generate:
  "generatePRContent (ai exampleGhpWorld) c
     = ([Auth EnvLookup, Run (claudeCommand prPrompt)],
        Inr (''Add widget'' @ newline # newline # ''Adds the widget.''))"
  by (simp add: generatePRContent_def executeClaudeCommand_def exampleGhpWorld_def
      exampleAuthWorld_def getAnthropicApiKey_def andThen_Inr invokeClaude_def example_trim
      del: append.simps)

lemma example_context_events:
  "fst (getPRContext (exampleGhpWorld\<lparr>ghPrEdit := e\<rparr>))
     = [Run ''git diff origin/main...HEAD --stat'', Run ''git log origin/main..HEAD --oneline'',
        Run ''git diff origin/main...HEAD'']"
  "\<exists>ctx. snd (getPRContext (exampleGhpWorld\<lparr>ghPrEdit := e\<rparr>)) = Inr ctx"
  by (simp_all add: getPRContext_def exampleGhpWorld_def andThen_Inr exec_def)

lemma example_update:
  "updateExistingPR (exampleGhpWorld\<lparr>ghPrEdit := e\<rparr>)
     = ([Run ''git diff origin/main...HEAD --stat'', Run ''git log origin/main..HEAD --oneline'',
         Run ''git diff origin/main...HEAD'', Auth EnvLookup, Run (claudeCommand prPrompt),
         WriteFileSync ''/tmp/pr-edit-1700000000123.md'' ''Adds the widget.'',
         Run (''gh pr edit --body-file '' @ dquote # ''/tmp/pr-edit-1700000000123.md'' @ [dquote])]
        @ (if isl e then [] else [UnlinkSync ''/tmp/pr-edit-1700000000123.md'']),
        if isl e then 1 else 0)"
proof -
  let ?w = "exampleGhpWorld\<lparr>ghPrEdit := e\<rparr>"
  obtain ctx where ctx: "snd (getPRContext ?w) = Inr ctx"
    using example_context_events(2) by blast
  have gen: "snd (generatePRContent (ai ?w) ctx)
      = Inr (''Add widget'' @ newline # newline # ''Adds the widget.'')"
    by (simp add: example_generate)
  have wr: "writeOk ?w" by (simp add: exampleGhpWorld_def)
  have tmp: "editTmpFile ?w = ''/tmp/pr-edit-1700000000123.md''"
    by (simp add: editTmpFile_def exampleGhpWorld_def natToString_ex)
  have un: "unlinkOk ?w" "ghPrEdit ?w = e" by (simp_all add: exampleGhpWorld_def)
  show ?thesis
    by (simp add: updateExistingPR_steps [OF ctx gen wr] example_context_events(1)
        example_generate example_description tmp un editCommand_def del: append.simps)
qed

lemma example_main:
  "main (exampleGhpWorld\<lparr>ghPrEdit := e\<rparr>)
     = ([Run ''git branch --show-current'', Run ''git diff --name-only'',
         Run ''git diff --cached --name-only'',
         Run ''git ls-files --others --exclude-standard'',
         Run (''node '' @ dquote # ''/opt/ghc.js'' @ [dquote]),
         Run ''git branch --show-current'',
         Run (''git rev-parse --abbrev-ref feature-x'' @ CHR ''@'' # ''{upstream}''),
         Run ''git push'', Run ''gh pr view --json url -q .url'']
        @ fst (updateExistingPR (exampleGhpWorld\<lparr>ghPrEdit := e\<rparr>)),
        snd (updateExistingPR (exampleGhpWorld\<lparr>ghPrEdit := e\<rparr>)))"
  by (simp add: main_def pushAndPR_def getCurrentBranch_def hasUncommittedChanges_def
      ensureBranchPushed_def getCurrentPR_def exampleGhpWorld_def andThen_Inr orExit1_Inr
      exec_def execStream_def truthyString_def del: append.simps)

text \<open>
  Claim C5: the temporary file is removed after use. The code removes it only on the
  way through: \<open>fs.unlinkSync\<close> follows \<open>await exec('gh pr edit ...')\<close> with no
  \<open>finally\<close>. On a branch with uncommitted changes and the open pull request
  \<open>https://github.com/x/y/pull/1\<close>, a run in which \<open>gh pr edit\<close> fails commits,
  pushes, writes the description to the temporary file, starts the edit and exits
  with status 1, and the file stays. The same run with the edit succeeding ends by
  removing the file, with status 0; its only command on the pull request is
  \<open>gh pr edit --body-file\<close>.
\<close>

theorem C5_edit_failure_leaves_file:
  "main (exampleGhpWorld\<lparr>ghPrEdit := Inl exitOne\<rparr>)
     = ([Run ''git branch --show-current'', Run ''git diff --name-only'',
         Run ''git diff --cached --name-only'',
         Run ''git ls-files --others --exclude-standard'',
         Run (''node '' @ dquote # ''/opt/ghc.js'' @ [dquote]),
         Run ''git branch --show-current'',
         Run (''git rev-parse --abbrev-ref feature-x'' @ CHR ''@'' # ''{upstream}''),
         Run ''git push'', Run ''gh pr view --json url -q .url'',
         Run ''git diff origin/main...HEAD --stat'',
         Run ''git log origin/main..HEAD --oneline'',
         Run ''git diff origin/main...HEAD'', Auth EnvLookup, Run (claudeCommand prPrompt),
         WriteFileSync ''/tmp/pr-edit-1700000000123.md'' ''Adds the widget.'',
         Run (''gh pr edit --body-file '' @ dquote # ''/tmp/pr-edit-1700000000123.md''
              @ [dquote])],
        1)
   \<and> leftBehind (fst (main (exampleGhpWorld\<lparr>ghPrEdit := Inl exitOne\<rparr>))) []
       = [''/tmp/pr-edit-1700000000123.md'']
   \<and> main exampleGhpWorld
     = ([Run ''git branch --show-current'', Run ''git diff --name-only'',
         Run ''git diff --cached --name-only'',
         Run ''git ls-files --others --exclude-standard'',
         Run (''node '' @ dquote # ''/opt/ghc.js'' @ [dquote]),
         Run ''git branch --show-current'',
         Run (''git rev-parse --abbrev-ref feature-x'' @ CHR ''@'' # ''{upstream}''),
         Run ''git push'', Run ''gh pr view --json url -q .url'',
         Run ''git diff origin/main...HEAD --stat'',
         Run ''git log origin/main..HEAD --oneline'',
         Run ''git diff origin/main...HEAD'', Auth EnvLookup, Run (claudeCommand prPrompt),
         WriteFileSync ''/tmp/pr-edit-1700000000123.md'' ''Adds the widget.'',
         Run (''gh pr edit --body-file '' @ dquote # ''/tmp/pr-edit-1700000000123.md''
              @ [dquote]),
         UnlinkSync ''/tmp/pr-edit-1700000000123.md''],
        0)
   \<and> leftBehind (fst (main exampleGhpWorld)) [] = []"
proof -
  have same: "exampleGhpWorld\<lparr>ghPrEdit := Inr []\<rparr> = exampleGhpWorld"
    by (simp add: exampleGhpWorld_def)
  have fail: "main (exampleGhpWorld\<lparr>ghPrEdit := Inl exitOne\<rparr>)
     = ([Run ''git branch --show-current'', Run ''git diff --name-only'',
         Run ''git diff --cached --name-only'',
         Run ''git ls-files --others --exclude-standard'',
         Run (''node '' @ dquote # ''/opt/ghc.js'' @ [dquote]),
         Run ''git branch --show-current'',
         Run (''git rev-parse --abbrev-ref feature-x'' @ CHR ''@'' # ''{upstream}''),
         Run ''git push'', Run ''gh pr view --json url -q .url'',
         Run ''git diff origin/main...HEAD --stat'',
         Run ''git log origin/main..HEAD --oneline'',
         Run ''git diff origin/main...HEAD'', Auth EnvLookup, Run (claudeCommand prPrompt),
         WriteFileSync ''/tmp/pr-edit-1700000000123.md'' ''Adds the widget.'',
         Run (''gh pr edit --body-file '' @ dquote # ''/tmp/pr-edit-1700000000123.md''
              @ [dquote])],
        1)"
    by (simp add: example_main example_update)
  have good: "main exampleGhpWorld
     = ([Run ''git branch --show-current'', Run ''git diff --name-only'',
         Run ''git diff --cached --name-only'',
         Run ''git ls-files --others --exclude-standard'',
         Run (''node '' @ dquote # ''/opt/ghc.js'' @ [dquote]),
         Run ''git branch --show-current'',
         Run (''git rev-parse --abbrev-ref feature-x'' @ CHR ''@'' # ''{upstream}''),
         Run ''git push'', Run ''gh pr view --json url -q .url'',
         Run ''git diff origin/main...HEAD --stat'',
         Run ''git log origin/main..HEAD --oneline'',
         Run ''git diff origin/main...HEAD'', Auth EnvLookup, Run (claudeCommand prPrompt),
         WriteFileSync ''/tmp/pr-edit-1700000000123.md'' ''Adds the widget.'',
         Run (''gh pr edit --body-file '' @ dquote # ''/tmp/pr-edit-1700000000123.md''
              @ [dquote]),
         UnlinkSync ''/tmp/pr-edit-1700000000123.md''],
        0)"
    using example_main [of "Inr []"] example_update [of "Inr []"] by (simp add: same)
  have l1: "leftBehind (fst (main (exampleGhpWorld\<lparr>ghPrEdit := Inl exitOne\<rparr>))) []
       = [''/tmp/pr-edit-1700000000123.md'']"
    by (simp add: fail)
  have l2: "leftBehind (fst (main exampleGhpWorld)) [] = []"
    by (simp add: good)
  from fail l1 good l2 show ?thesis by (intro conjI)
qed

lemma splitLines_first: "\<exists>ls. splitLines s = takeWhile (\<lambda>c. c \<noteq> newline) s # ls"
proof (induction s)
  case Nil
  show ?case by simp
next
  case (Cons c cs)
  then show ?case by (cases "c = newline") auto
qed

lemma takeWhile_first_line:
  "newline \<notin> set a \<Longrightarrow> takeWhile (\<lambda>c. c \<noteq> newline) (a @ newline # b) = a"
  by (induction a) auto

lemma prTitle_first_line: "prTitle content = Some (takeWhile (\<lambda>c. c \<noteq> newline) content)"
proof -
  obtain ls where "splitLines content = takeWhile (\<lambda>c. c \<noteq> newline) content # ls"
    using splitLines_first by blast
  then show ?thesis by (simp add: prTitle_def)
qed

lemma prDescription_third_line_on:
  assumes "newline \<notin> set l1" and "newline \<notin> set l2"
  shows "prDescription (l1 @ newline # l2 @ newline # rest) = rest"
proof -
  have "splitLines (l1 @ newline # l2 @ newline # rest) = l1 # l2 # splitLines rest"
    using assms by (simp add: splitLines_append)
  then show ?thesis by (simp add: prDescription_def joinLines_splitLines)
qed

lemma prDescription_short:
  assumes "length (splitLines content) < 3"
  shows "prDescription content = []"
proof -
  from assms have "drop 2 (splitLines content) = []" by simp
  then show ?thesis by (simp add: prDescription_def)
qed

lemma createNewPR_steps:
  assumes ctx: "snd (getPRContext w) = Inr ctx"
    and gen: "snd (generatePRContent (ai w) ctx) = Inr content"
    and wr: "writeOk w"
  shows "createNewPR w branch =
           (fst (getPRContext w) @ fst (generatePRContent (ai w) ctx)
              @ [WriteFileSync (bodyTmpFile w) (prDescription content),
                 Run (createCommand w (takeWhile (\<lambda>c. c \<noteq> newline) content) branch)]
              @ (if \<not> isl (ghPrCreate w) \<and> unlinkOk w then [UnlinkSync (bodyTmpFile w)] else []),
            if \<not> isl (ghPrCreate w) \<and> unlinkOk w then 0 else 1)"
  using wr
  by (cases "ghPrCreate w")
     (simp_all add: createNewPR_def orExit1_ok [OF ctx] orExit1_ok [OF gen] Let_def
       orExit1_Inl orExit1_Inr exec_throwing bodyTmpFile_def createCommand_def
       prTitle_first_line)

lemma createNewPR_shape:
  "\<exists>pre. quiet pre \<and>
     (createNewPR w branch = (pre, 1) \<or>
      (\<exists>ctx content.
         snd (getPRContext w) = Inr ctx \<and> snd (generatePRContent (ai w) ctx) = Inr content \<and>
         createNewPR w branch =
           (pre @ [WriteFileSync (bodyTmpFile w) (prDescription content),
                   Run (createCommand w (takeWhile (\<lambda>c. c \<noteq> newline) content) branch)]
              @ (if \<not> isl (ghPrCreate w) \<and> unlinkOk w then [UnlinkSync (bodyTmpFile w)] else []),
            if \<not> isl (ghPrCreate w) \<and> unlinkOk w then 0 else 1)))"
proof (cases "snd (getPRContext w)")
  case (Inl e)
  then have "createNewPR w branch = (fst (getPRContext w), 1)"
    by (simp add: createNewPR_def orExit1_fail)
  then show ?thesis using quiet_getPRContext by blast
next
  case ctx: (Inr ctx)
  have q: "quiet (fst (getPRContext w) @ fst (generatePRContent (ai w) ctx))"
    by (simp add: quiet_append quiet_getPRContext quiet_generatePRContent)
  show ?thesis
  proof (cases "snd (generatePRContent (ai w) ctx)")
    case (Inl e)
    then have "createNewPR w branch
        = (fst (getPRContext w) @ fst (generatePRContent (ai w) ctx), 1)"
      by (simp add: createNewPR_def orExit1_ok [OF ctx] orExit1_fail)
    with q show ?thesis by blast
  next
    case gen: (Inr content)
    show ?thesis
    proof (cases "writeOk w")
      case False
      then have "createNewPR w branch
          = (fst (getPRContext w) @ fst (generatePRContent (ai w) ctx), 1)"
        by (simp add: createNewPR_def orExit1_ok [OF ctx] orExit1_ok [OF gen] Let_def)
      with q show ?thesis by blast
    next
      case True
      from createNewPR_steps [OF ctx gen True, of branch] q ctx gen show ?thesis
        by (metis append_assoc)
    qed
  qed
qed

text \<open>
  Claim C10. The title is the first line of the generated content, the description is
  its lines from the third on, joined by newlines. Whatever the second line holds, it
  is dropped: for content \<open>l1\<close>, newline, \<open>l2\<close>, newline, \<open>rest\<close> the title is \<open>l1\<close>
  and the description is \<open>rest\<close>. Content of fewer than three lines gives the empty
  description. The branch of \<open>main\<close> that creates a pull request writes this
  description to the body file and passes this title to \<open>gh pr create\<close>.
\<close>

theorem C10_title_and_description:
  "prTitle content = Some (takeWhile (\<lambda>c. c \<noteq> newline) content)
   \<and> prDescription content = joinLines (drop 2 (splitLines content))
   \<and> (newline \<notin> set l1 \<and> newline \<notin> set l2 \<longrightarrow>
        prTitle (l1 @ newline # l2 @ newline # rest) = Some l1 \<and>
        prDescription (l1 @ newline # l2 @ newline # rest) = rest)
   \<and> (length (splitLines content) < 3 \<longrightarrow> prDescription content = [])
   \<and> (\<exists>pre. quiet pre \<and>
        (createNewPR w branch = (pre, 1) \<or>
         (\<exists>ctx generated.
            snd (getPRContext w) = Inr ctx \<and>
            snd (generatePRContent (ai w) ctx) = Inr generated \<and>
            createNewPR w branch =
              (pre @ [WriteFileSync (bodyTmpFile w) (prDescription generated),
                      Run (createCommand w (takeWhile (\<lambda>c. c \<noteq> newline) generated) branch)]
                 @ (if \<not> isl (ghPrCreate w) \<and> unlinkOk w
                    then [UnlinkSync (bodyTmpFile w)] else []),
               if \<not> isl (ghPrCreate w) \<and> unlinkOk w then 0 else 1))))"
proof -
  have a: "prTitle content = Some (takeWhile (\<lambda>c. c \<noteq> newline) content)"
    by (rule prTitle_first_line)
  have b: "prDescription content = joinLines (drop 2 (splitLines content))"
    by (simp add: prDescription_def)
  have c: "newline \<notin> set l1 \<and> newline \<notin> set l2 \<longrightarrow>
        prTitle (l1 @ newline # l2 @ newline # rest) = Some l1 \<and>
        prDescription (l1 @ newline # l2 @ newline # rest) = rest"
  proof
    assume h: "newline \<notin> set l1 \<and> newline \<notin> set l2"
    then have "takeWhile (\<lambda>c. c \<noteq> newline) (l1 @ newline # l2 @ newline # rest) = l1"
      by (simp add: takeWhile_first_line)
    with h show "prTitle (l1 @ newline # l2 @ newline # rest) = Some l1 \<and>
        prDescription (l1 @ newline # l2 @ newline # rest) = rest"
      by (simp add: prTitle_first_line prDescription_third_line_on)
  qed
  have d: "length (splitLines content) < 3 \<longrightarrow> prDescription content = []"
    using prDescription_short by blast
  from a b c d createNewPR_shape [of w branch] show ?thesis by (intro conjI)
qed

text \<open>Claim C10, witness: a second line that is not blank, and content of two lines.\<close>

theorem C10_title_and_description_witness:
  "newline \<notin> set ''Add widget'' \<and> newline \<notin> set ''not blank''
   \<and> prTitle (''Add widget'' @ newline # ''not blank'' @ newline # ''Adds the widget.'')
       = Some ''Add widget''
   \<and> prDescription (''Add widget'' @ newline # ''not blank'' @ newline # ''Adds the widget.'')
       = ''Adds the widget.''
   \<and> length (splitLines (''Add widget'' @ newline # ''fix'')) < 3
   \<and> prDescription (''Add widget'' @ newline # ''fix'') = []"
proof -
  have n: "newline \<notin> set ''Add widget'' \<and> newline \<notin> set ''not blank''"
    by (simp add: newline_def)
  have s: "length (splitLines (''Add widget'' @ newline # ''fix'')) < 3"
    by (simp add: newline_def)
  from C10_title_and_description
         [of "''Add widget'' @ newline # ''fix''" "''Add widget''" "''not blank''"
             "''Adds the widget.''"] n s
  show ?thesis by blast
qed

end
